theory Spec2Isabelle
  imports Complex_Main "HOL-Library.Log_Nat"
begin

section \<open>Values that reach the route handlers\<close>

text \<open>
  The handlers of \<^verbatim>\<open>src/routes/tasks.js\<close> and \<^verbatim>\<open>src/routes/users.js\<close> read fields of
  \<^verbatim>\<open>req.body\<close>, \<^verbatim>\<open>req.query\<close> and \<^verbatim>\<open>req.params\<close>. A field that is missing is
  \<^verbatim>\<open>undefined\<close>, modelled by \<open>None\<close>. The fields the handlers store as text (name,
  email, description, deadline, assignedUser, assignedUserName) are strings; \<^verbatim>\<open>completed\<close>
  is a string or a boolean and \<^verbatim>\<open>pendingTasks\<close> a string or an array of strings, because
  the handlers test for both. Query parameters are strings. A string is a sequence of
  code units below 256.
\<close>

text \<open>A value produced by \<^verbatim>\<open>JSON.parse\<close>.\<close>

datatype json =
  JNull | JBool bool | JNum rat | JStr string | JArr "json list" | JObj "(string \<times> json) list"

text \<open>JavaScript truthiness; \<^verbatim>\<open>undefined\<close> is falsy.\<close>

fun truthy :: "json \<Rightarrow> bool" where
  "truthy JNull = False"
| "truthy (JBool b) = b"
| "truthy (JNum r) = (r \<noteq> 0)"
| "truthy (JStr s) = (s \<noteq> [])"
| "truthy (JArr xs) = True"
| "truthy (JObj kvs) = True"

definition truthy_opt :: "json option \<Rightarrow> bool" where
  "truthy_opt v = (case v of None \<Rightarrow> False | Some j \<Rightarrow> truthy j)"

text \<open>\<^verbatim>\<open>a || b\<close> on values that may be undefined.\<close>

definition js_or :: "json option \<Rightarrow> json option \<Rightarrow> json option" where
  "js_or a b = (if truthy_opt a then a else b)"

text \<open>A string field: truthy when present and not empty; \<^verbatim>\<open>field || dflt\<close>.\<close>

definition str_truthy :: "string option \<Rightarrow> bool" where
  "str_truthy v = (case v of None \<Rightarrow> False | Some s \<Rightarrow> s \<noteq> [])"

definition str_or :: "string option \<Rightarrow> string \<Rightarrow> string" where
  "str_or v dflt = (case v of None \<Rightarrow> dflt | Some s \<Rightarrow> if s = [] then dflt else s)"

text \<open>The \<^verbatim>\<open>completed\<close> field of a body and the \<^verbatim>\<open>pendingTasks\<close> field of a body.\<close>

datatype flagval = FStr string | FBool bool

datatype listval = LStr string | LArr "string list"

text \<open>\<^verbatim>\<open>(body.completed === 'true' || body.completed === true)\<close>\<close>

definition completed_flag :: "flagval option \<Rightarrow> bool" where
  "completed_flag v = (v = Some (FStr ''true'') \<or> v = Some (FBool True))"

subsection \<open>parseInt and Date\<close>

text \<open>
  A JavaScript number as far as the handlers look at it: \<^verbatim>\<open>NaN\<close> or an integer.
  \<^verbatim>\<open>parseInt\<close> without a radix skips leading white space, reads an optional sign, an
  optional \<^verbatim>\<open>0x\<close> prefix, and the longest run of digits of the radix; with no digit it
  gives \<^verbatim>\<open>NaN\<close>. The integer read is rounded to the nearest double, a tie to the even
  one. (A run of digits beyond the range of doubles, more than 308 decimal digits, gives
  \<^verbatim>\<open>Infinity\<close>; that is not modelled.)
\<close>

datatype number = NaN | Num int

text \<open>White space among the code units below 256: TAB, LF, VT, FF, CR, SP and NBSP.\<close>

definition is_ws :: "char \<Rightarrow> bool" where
  "is_ws c = (of_char c \<in> {9, 10, 11, 12, 13, 32, 160 :: nat})"

text \<open>The double nearest to a natural number: 53 significant bits, ties to even.\<close>

definition to_double :: "nat \<Rightarrow> nat" where
  "to_double n =
     (if n < 9007199254740992 then n
      else
        let sh = floorlog 2 n - 53;
            q = n div 2 ^ sh;
            r = n mod 2 ^ sh;
            h = 2 ^ (sh - 1)
        in (if r > h \<or> (r = h \<and> odd q) then q + 1 else q) * 2 ^ sh)"

definition digit_val :: "char \<Rightarrow> nat option" where
  "digit_val c =
     (let n = (of_char c :: nat) in
      if 48 \<le> n \<and> n \<le> 57 then Some (n - 48)
      else if 97 \<le> n \<and> n \<le> 102 then Some (n - 87)
      else if 65 \<le> n \<and> n \<le> 70 then Some (n - 55)
      else None)"

definition in_radix :: "nat \<Rightarrow> char \<Rightarrow> bool" where
  "in_radix r c = (case digit_val c of None \<Rightarrow> False | Some d \<Rightarrow> d < r)"

definition digits_value :: "nat \<Rightarrow> string \<Rightarrow> nat" where
  "digits_value r ds = foldl (\<lambda>a c. a * r + (case digit_val c of None \<Rightarrow> 0 | Some d \<Rightarrow> d)) 0 ds"

definition parseInt :: "string \<Rightarrow> number" where
  "parseInt s =
     (let s1 = dropWhile is_ws s;
          neg = (take 1 s1 = ''-'');
          s2 = (if take 1 s1 = ''-'' \<or> take 1 s1 = ''+'' then drop 1 s1 else s1);
          hex = (take 2 s2 = ''0x'' \<or> take 2 s2 = ''0X'');
          radix = (if hex then 16 else 10);
          s3 = (if hex then drop 2 s2 else s2);
          ds = takeWhile (in_radix radix) s3
      in if ds = [] then NaN
         else Num ((if neg then - 1 else 1) * int (to_double (digits_value radix ds))))"

text \<open>\<^verbatim>\<open>isNaN(x)\<close> for a variable that holds a number or \<^verbatim>\<open>undefined\<close>.\<close>

definition isNaN :: "number option \<Rightarrow> bool" where
  "isNaN v = (case v of None \<Rightarrow> True | Some NaN \<Rightarrow> True | Some (Num n) \<Rightarrow> False)"

text \<open>
  \<^verbatim>\<open>new Date(n)\<close>: a time value in milliseconds, or an invalid date (\<open>None\<close>) for
  \<^verbatim>\<open>NaN\<close> and beyond the range of dates.
\<close>

definition newDate :: "number \<Rightarrow> int option" where
  "newDate v = (case v of NaN \<Rightarrow> None
                | Num n \<Rightarrow> if \<bar>n\<bar> \<le> 8640000000000000 then Some n else None)"

subsection \<open>Object identifiers\<close>

text \<open>
  \<^verbatim>\<open>mongoose.Types.ObjectId\<close> is a library type: a string is a valid identifier when it has
  24 hexadecimal digits or 12 characters (read as 12 bytes). Casting gives the 24 lower-case
  digits that \<^verbatim>\<open>_id.toString()\<close> prints; documents are matched on this form.
\<close>

definition is_hex :: "char \<Rightarrow> bool" where
  "is_hex c = (digit_val c \<noteq> None)"

definition hex_digit :: "nat \<Rightarrow> char" where
  "hex_digit d = ''0123456789abcdef'' ! d"

definition lower_hex :: "char \<Rightarrow> char" where
  "lower_hex c = (case digit_val c of None \<Rightarrow> c | Some d \<Rightarrow> hex_digit d)"

definition hex_of_byte :: "char \<Rightarrow> string" where
  "hex_of_byte c = [hex_digit ((of_char c :: nat) div 16), hex_digit ((of_char c :: nat) mod 16)]"

definition castObjectId :: "string \<Rightarrow> string option" where
  "castObjectId s =
     (if length s = 24 \<and> list_all is_hex s then Some (map lower_hex s)
      else if length s = 12 then Some (concat (map hex_of_byte s))
      else None)"

definition isValid :: "string \<Rightarrow> bool" where
  "isValid s = (castObjectId s \<noteq> None)"

fun castIds :: "string list \<Rightarrow> string list option" where
  "castIds [] = Some []"
| "castIds (x # xs) =
     (case castObjectId x of None \<Rightarrow> None
      | Some k \<Rightarrow> (case castIds xs of None \<Rightarrow> None | Some ks \<Rightarrow> Some (k # ks)))"

section \<open>Documents and the store\<close>

text \<open>
  Modelled from the spec: the schemas (\<^verbatim>\<open>models/task.js\<close>, \<^verbatim>\<open>models/user.js\<close>) are not
  in the sources. The fields are those the handlers read and write, typed as the data
  model of the specification gives them; \<^verbatim>\<open>dateCreated\<close> is never read or written by a
  handler and is left out. A collection is the list of its documents in insertion order.
\<close>

record task =
  task_id :: string
  task_name :: string
  description :: string
  deadline :: int
  completed :: bool
  assignedUser :: string
  assignedUserName :: string

record user =
  user_id :: string
  user_name :: string
  email :: string
  pendingTasks :: "string list"

record db =
  tasks :: "task list"
  users :: "user list"

datatype storage_error = CastError | ValidationError | QueryError

text \<open>
  Modelled from the spec: the Task schema is not in the sources. \<^verbatim>\<open>deadline\<close> is a
  required timestamp, so \<^verbatim>\<open>save\<close> rejects a task whose deadline is an invalid date.
\<close>

definition validate_deadline :: "int option \<Rightarrow> storage_error + int" where
  "validate_deadline dl = (case dl of None \<Rightarrow> Inl ValidationError | Some d \<Rightarrow> Inr d)"

text \<open>
  Modelled from the spec: the User schema is not in the sources. \<^verbatim>\<open>pendingTasks\<close> is a
  sequence of task identifiers, kept as strings; a lone string given for it is stored as
  a sequence of one.
\<close>

definition cast_pendingTasks :: "listval \<Rightarrow> string list" where
  "cast_pendingTasks v = (case v of LArr xs \<Rightarrow> xs | LStr s \<Rightarrow> [s])"

text \<open>\<^verbatim>\<open>Model.findById(id)\<close>: a cast error for an id that is no identifier.\<close>

definition findById :: "('d \<Rightarrow> string) \<Rightarrow> string \<Rightarrow> 'd list \<Rightarrow> storage_error + 'd option" where
  "findById idf i ds =
     (case castObjectId i of None \<Rightarrow> Inl CastError
      | Some k \<Rightarrow> Inr (find (\<lambda>d. idf d = k) ds))"

text \<open>\<^verbatim>\<open>updateOne\<close> changes the first document that matches, \<^verbatim>\<open>updateMany\<close> all of them.\<close>

fun updateOne :: "('d \<Rightarrow> bool) \<Rightarrow> ('d \<Rightarrow> 'd) \<Rightarrow> 'd list \<Rightarrow> 'd list" where
  "updateOne p f [] = []"
| "updateOne p f (d # ds) = (if p d then f d # ds else d # updateOne p f ds)"

definition updateMany :: "('d \<Rightarrow> bool) \<Rightarrow> ('d \<Rightarrow> 'd) \<Rightarrow> 'd list \<Rightarrow> 'd list" where
  "updateMany p f ds = map (\<lambda>d. if p d then f d else d) ds"

text \<open>\<^verbatim>\<open>deleteOne\<close> removes the first document that matches.\<close>

fun deleteOne :: "('d \<Rightarrow> bool) \<Rightarrow> 'd list \<Rightarrow> 'd list" where
  "deleteOne p [] = []"
| "deleteOne p (d # ds) = (if p d then ds else d # deleteOne p ds)"

text \<open>\<^verbatim>\<open>Task.find({ _id: { $in: ids } })\<close>\<close>

definition findTasksIn :: "string list \<Rightarrow> task list \<Rightarrow> storage_error + task list" where
  "findTasksIn ids ts =
     (case castIds ids of None \<Rightarrow> Inl CastError
      | Some ks \<Rightarrow> Inr (filter (\<lambda>t. task_id t \<in> set ks) ts))"

text \<open>\<^verbatim>\<open>Task.updateMany({ _id: { $in: ids } }, { assignedUser: u, assignedUserName: n })\<close>\<close>

definition assignTasksIn :: "string list \<Rightarrow> string \<Rightarrow> string \<Rightarrow> task list \<Rightarrow> storage_error + task list" where
  "assignTasksIn ids u n ts =
     (case castIds ids of None \<Rightarrow> Inl CastError
      | Some ks \<Rightarrow> Inr (updateMany (\<lambda>t. task_id t \<in> set ks)
                        (\<lambda>t. t\<lparr>assignedUser := u, assignedUserName := n\<rparr>) ts))"

section \<open>Responses\<close>

datatype payload =
    NoData
  | TaskDoc task
  | UserDoc user
  | TaskDocSel json task
  | UserDocSel json user
  | IdList "string list"
  | IdOne string
  | NameMismatch string string
  | ErrorData storage_error
  | NoBody
  | ErrorPage

record response =
  status :: nat
  message :: string
  data :: payload

definition respond :: "nat \<Rightarrow> string \<Rightarrow> payload \<Rightarrow> response" where
  "respond s m d = \<lparr>status = s, message = m, data = d\<rparr>"

text \<open>\<^verbatim>\<open>res.status(500).json({ message: 'Server error', data: err })\<close>\<close>

definition server_error :: "storage_error \<Rightarrow> response" where
  "server_error e = respond 500 ''Server error'' (ErrorData e)"

text \<open>
  An exception that leaves a handler which is not \<^verbatim>\<open>async\<close> and has no \<^verbatim>\<open>try\<close> around the
  call: Express answers it with status 500 and its own error page, outside the
  \<^verbatim>\<open>{ message, data }\<close> envelope.
\<close>

definition uncaught_error :: response where
  "uncaught_error = respond 500 [] ErrorPage"

section \<open>What the handlers call in the libraries\<close>

text \<open>
  The library calls whose outcome depends on the value of a query parameter, taken as
  arguments of the handlers that make them: \<^verbatim>\<open>JSON.parse\<close> (\<open>None\<close> when it throws), whether
  \<^verbatim>\<open>q.select(v)\<close> and \<^verbatim>\<open>q.sort(v)\<close> return (they throw a \<^verbatim>\<open>TypeError\<close> for a value they
  cannot read, a number for instance), and whether the store executes a \<^verbatim>\<open>findById\<close> with
  the projection \<open>v\<close> (it rejects the query otherwise).
\<close>

record lib =
  JSON_parse :: "string \<Rightarrow> json option"
  select_accepts :: "json \<Rightarrow> bool"
  sort_accepts :: "json \<Rightarrow> bool"
  store_projects :: "json \<Rightarrow> bool"

section \<open>routes/tasks.js\<close>

record task_body =
  b_name :: "string option"
  b_deadline :: "string option"
  b_description :: "string option"
  b_completed :: "flagval option"
  b_assignedUser :: "string option"
  b_assignedUserName :: "string option"

text \<open>\<^verbatim>\<open>addTaskToUser(userId, taskId)\<close> and \<^verbatim>\<open>removeTaskFromUser(userId, taskId)\<close>\<close>

definition addTaskToUser :: "string \<Rightarrow> string \<Rightarrow> user list \<Rightarrow> storage_error + user list" where
  "addTaskToUser userId taskId us =
     (if userId = [] then Inr us
      else case castObjectId userId of None \<Rightarrow> Inl CastError
           | Some k \<Rightarrow> Inr (updateOne (\<lambda>u. user_id u = k \<and> taskId \<notin> set (pendingTasks u))
                             (\<lambda>u. u\<lparr>pendingTasks := pendingTasks u @ [taskId]\<rparr>) us))"

definition removeTaskFromUser :: "string \<Rightarrow> string \<Rightarrow> user list \<Rightarrow> storage_error + user list" where
  "removeTaskFromUser userId taskId us =
     (if userId = [] then Inr us
      else case castObjectId userId of None \<Rightarrow> Inl CastError
           | Some k \<Rightarrow> Inr (updateOne (\<lambda>u. user_id u = k)
                             (\<lambda>u. u\<lparr>pendingTasks := filter (\<lambda>p. p \<noteq> taskId) (pendingTasks u)\<rparr>) us))"

text \<open>
  \<^verbatim>\<open>POST /api/tasks\<close>, from \<^verbatim>\<open>new Task(...)\<close> on. The identifier the store gives the new
  document is the argument \<open>new_id\<close>. A rejected \<^verbatim>\<open>save\<close> is answered by the handler's
  \<^verbatim>\<open>catch\<close> with 500; a failure of \<^verbatim>\<open>addTaskToUser\<close> is swallowed by its \<^verbatim>\<open>.catch\<close>.
\<close>

definition tasks_post_save ::
  "string \<Rightarrow> string \<Rightarrow> string \<Rightarrow> int option \<Rightarrow> bool \<Rightarrow> string \<Rightarrow> string \<Rightarrow> db \<Rightarrow> response \<times> db" where
  "tasks_post_save new_id nm descr dl compl assigned assignedName db =
     (case validate_deadline dl of
        Inl e \<Rightarrow> (server_error e, db)
      | Inr d \<Rightarrow>
          let saved = \<lparr>task_id = new_id, task_name = nm, description = descr, deadline = d,
                       completed = compl, assignedUser = assigned, assignedUserName = assignedName\<rparr>;
              db1 = db\<lparr>tasks := tasks db @ [saved]\<rparr>;
              db2 = (if assigned \<noteq> [] \<and> \<not> compl
                     then (case addTaskToUser assigned new_id (users db1) of
                             Inl e \<Rightarrow> db1 | Inr us \<Rightarrow> db1\<lparr>users := us\<rparr>)
                     else db1)
          in (respond 201 ''Task created'' (TaskDoc saved), db2))"

definition tasks_post :: "string \<Rightarrow> task_body \<Rightarrow> db \<Rightarrow> response \<times> db" where
  "tasks_post new_id body db =
     (let nm = b_name body;
          dline = b_deadline body;
          descr = str_or (b_description body) [];
          compl = completed_flag (b_completed body);
          assigned = str_or (b_assignedUser body) [];
          assignedName = b_assignedUserName body
      in if \<not> str_truthy nm \<or> \<not> str_truthy dline
         then (respond 400 ''Bad Request: name and deadline are required'' NoData, db)
         else
           let dl = newDate (parseInt (str_or dline [])) in
           if assigned \<noteq> [] then
             if \<not> isValid assigned
             then (respond 400 ''Bad Request: invalid assignedUser id format'' NoData, db)
             else (case findById user_id assigned (users db) of
                     Inl e \<Rightarrow> (server_error e, db)
                   | Inr None \<Rightarrow> (respond 404 ''Not Found: assigned user does not exist'' NoData, db)
                   | Inr (Some theUser) \<Rightarrow>
                       if str_truthy assignedName then
                         if str_or assignedName [] \<noteq> user_name theUser
                         then (respond 400 ''Bad Request: assignedUserName does not match user name''
                                 (NameMismatch (str_or assignedName []) (user_name theUser)), db)
                         else tasks_post_save new_id (str_or nm []) descr dl compl assigned
                                (str_or assignedName []) db
                       else tasks_post_save new_id (str_or nm []) descr dl compl assigned
                              (user_name theUser) db)
           else tasks_post_save new_id (str_or nm []) descr dl compl assigned
                  (str_or assignedName []) db)"

text \<open>\<^verbatim>\<open>parseJSONParam\<close>: \<^verbatim>\<open>undefined\<close> for a missing or empty parameter, the parsed value,
  or \<^verbatim>\<open>null\<close> when \<^verbatim>\<open>JSON.parse\<close> throws. \<^verbatim>\<open>JSON.parse\<close> is the argument \<open>parse\<close>
  (\<open>None\<close> when it throws).\<close>

definition parseJSONParam :: "(string \<Rightarrow> json option) \<Rightarrow> string option \<Rightarrow> json option" where
  "parseJSONParam parse param =
     (if \<not> str_truthy param then None
      else (case parse (str_or param []) of Some v \<Rightarrow> Some v | None \<Rightarrow> Some JNull))"

record query =
  q_where :: "string option"
  q_sort :: "string option"
  q_select :: "string option"
  q_filter :: "string option"
  q_skip :: "string option"
  q_limit :: "string option"
  q_count :: "string option"

text \<open>
  What a list handler does: it answers with a 400 of its own, or an exception leaves it
  (\<open>uncaught_error\<close>), or it hands to the store \<^verbatim>\<open>countDocuments(filter)\<close> or the query
  built by \<^verbatim>\<open>find\<close>, \<^verbatim>\<open>select\<close>, \<^verbatim>\<open>sort\<close>, \<^verbatim>\<open>skip\<close> and \<^verbatim>\<open>limit\<close>. The store's answer (200
  with the documents or the count, 500 when it rejects the query) is outside the model.
\<close>

record find_query =
  f_filter :: json
  f_select :: "json option"
  f_sort :: "json option"
  f_skip :: "int option"
  f_limit :: "int option"

datatype list_outcome = Respond response | CountDocuments json | Find find_query

text \<open>\<^verbatim>\<open>where || {}\<close>\<close>

definition filter_of :: "json option \<Rightarrow> json" where
  "filter_of w = (case js_or w (Some (JObj [])) of None \<Rightarrow> JObj [] | Some j \<Rightarrow> j)"

text \<open>\<^verbatim>\<open>if (select) q = q.select(select)\<close>, and the same for \<^verbatim>\<open>sort\<close>\<close>

definition clause_of :: "json option \<Rightarrow> json option" where
  "clause_of v = (if truthy_opt v then v else None)"

text \<open>A \<^verbatim>\<open>select\<close> or \<^verbatim>\<open>sort\<close> is passed on (it is truthy) and is refused: \<^verbatim>\<open>q.select\<close> or
  \<^verbatim>\<open>q.sort\<close> throws, or the store rejects the projection.\<close>

definition refused :: "(json \<Rightarrow> bool) \<Rightarrow> json option \<Rightarrow> bool" where
  "refused accepts v = (case clause_of v of None \<Rightarrow> False | Some j \<Rightarrow> \<not> accepts j)"

text \<open>\<^verbatim>\<open>if (!isNaN(skip)) q = q.skip(skip)\<close>, and the same for \<^verbatim>\<open>limit\<close>\<close>

definition number_clause :: "number option \<Rightarrow> int option" where
  "number_clause v = (if \<not> isNaN v then (case v of Some (Num n) \<Rightarrow> Some n | _ \<Rightarrow> None) else None)"

definition build_query :: "json option \<Rightarrow> json option \<Rightarrow> json option \<Rightarrow> number option \<Rightarrow> number option \<Rightarrow> find_query" where
  "build_query whr sel srt skipN limitN =
     \<lparr>f_filter = filter_of whr, f_select = clause_of sel, f_sort = clause_of srt,
      f_skip = number_clause skipN, f_limit = number_clause limitN\<rparr>"

text \<open>\<^verbatim>\<open>GET /api/tasks\<close>. The query is built, by \<^verbatim>\<open>select\<close> and \<^verbatim>\<open>sort\<close> too, before
  \<^verbatim>\<open>count\<close> is looked at.\<close>

definition tasks_get_list :: "lib \<Rightarrow> query \<Rightarrow> list_outcome" where
  "tasks_get_list lib q =
     (let whr = parseJSONParam (JSON_parse lib) (q_where q);
          srt = parseJSONParam (JSON_parse lib) (q_sort q);
          sel = parseJSONParam (JSON_parse lib) (q_select q);
          skipN = (if str_truthy (q_skip q) then Some (parseInt (str_or (q_skip q) [])) else None);
          limitN = (if str_truthy (q_limit q) then Some (parseInt (str_or (q_limit q) []))
                 else Some (Num 100));
          count = (q_count q = Some ''true'')
      in if whr = Some JNull \<or> srt = Some JNull \<or> sel = Some JNull
         then Respond (respond 400 ''Bad Request: malformed JSON in query parameters'' NoData)
         else if refused (select_accepts lib) sel \<or> refused (sort_accepts lib) srt
         then Respond uncaught_error
         else if count then CountDocuments (filter_of whr)
         else Find (build_query whr sel srt skipN limitN))"

text \<open>
  \<^verbatim>\<open>GET /api/tasks/:id\<close>. An exception leaves the handler when \<^verbatim>\<open>q.select\<close> throws; the
  \<^verbatim>\<open>.catch\<close> answers 500 when the query is rejected (the cast of the id, then the
  projection at the store).
\<close>

definition tasks_get_by_id :: "lib \<Rightarrow> string \<Rightarrow> query \<Rightarrow> db \<Rightarrow> response" where
  "tasks_get_by_id lib rid q db =
     (let sel = parseJSONParam (JSON_parse lib) (q_select q) in
      if sel = Some JNull then respond 400 ''Bad Request: malformed JSON in select'' NoData
      else if \<not> isValid rid then respond 400 ''Bad Request: invalid id format'' NoData
      else if refused (select_accepts lib) sel then uncaught_error
      else (case findById task_id rid (tasks db) of
              Inl e \<Rightarrow> server_error e
            | Inr found \<Rightarrow>
                if refused (store_projects lib) sel then server_error QueryError
                else (case found of
                        None \<Rightarrow> respond 404 ''Not Found'' NoData
                      | Some t \<Rightarrow>
                          respond 200 ''OK''
                            (case clause_of sel of None \<Rightarrow> TaskDoc t | Some j \<Rightarrow> TaskDocSel j t))))"

text \<open>
  \<^verbatim>\<open>PUT /api/tasks/:id\<close>. First the resolution of \<^verbatim>\<open>resolvedAssignedUserName\<close>: a response
  that ends the request, or the resolved name (\<open>None\<close> while it is \<^verbatim>\<open>undefined\<close>).
\<close>

definition resolve_assigned :: "task_body \<Rightarrow> db \<Rightarrow> response + string option" where
  "resolve_assigned body db =
     (if str_truthy (b_assignedUser body) then
        if \<not> isValid (str_or (b_assignedUser body) [])
        then Inl (respond 400 ''Bad Request: invalid assignedUser id format'' NoData)
        else (case findById user_id (str_or (b_assignedUser body) []) (users db) of
                Inl e \<Rightarrow> Inl (server_error e)
              | Inr None \<Rightarrow> Inl (respond 404 ''Not Found: assigned user does not exist'' NoData)
              | Inr (Some theUser) \<Rightarrow>
                  if str_truthy (b_assignedUserName body) then
                    if str_or (b_assignedUserName body) [] \<noteq> user_name theUser
                    then Inl (respond 400 ''Bad Request: assignedUserName does not match user name''
                                (NameMismatch (str_or (b_assignedUserName body) []) (user_name theUser)))
                    else Inr (Some (str_or (b_assignedUserName body) []))
                  else Inr (Some (user_name theUser)))
      else Inr None)"

text \<open>The fields of the task after \<^verbatim>\<open>// update fields\<close>, given a valid deadline \<open>d\<close>.\<close>

definition updated_task :: "task \<Rightarrow> task_body \<Rightarrow> string option \<Rightarrow> int \<Rightarrow> task" where
  "updated_task t body resolved d =
     (let assigned = str_or (b_assignedUser body) [] in
      t\<lparr>task_name := str_or (b_name body) [],
        description := str_or (b_description body) [],
        deadline := d,
        completed := completed_flag (b_completed body),
        assignedUser := assigned,
        assignedUserName :=
          (case resolved of Some n \<Rightarrow> n
           | None \<Rightarrow> str_or (b_assignedUserName body)
                       (if assigned \<noteq> [] then assignedUserName t else ''unassigned''))\<rparr>)"

text \<open>\<^verbatim>\<open>task.save()\<close> and the three updates of \<^verbatim>\<open>pendingTasks\<close> that follow it. A cast
  error in one of them is thrown after the task is saved: the answer is 500 and the
  writes made so far stay.\<close>

definition tasks_put_apply :: "task \<Rightarrow> task_body \<Rightarrow> string option \<Rightarrow> db \<Rightarrow> response \<times> db" where
  "tasks_put_apply t body resolved db =
     (case validate_deadline (newDate (parseInt (str_or (b_deadline body) []))) of
        Inl e \<Rightarrow> (server_error e, db)
      | Inr d \<Rightarrow>
          let oldAssigned = assignedUser t;
              oldCompleted = completed t;
              t' = updated_task t body resolved d;
              db1 = db\<lparr>tasks := updateOne (\<lambda>x. task_id x = task_id t) (\<lambda>x. t') (tasks db)\<rparr>
          in (case (if oldAssigned \<noteq> [] \<and> oldAssigned \<noteq> assignedUser t'
                    then removeTaskFromUser oldAssigned (task_id t) (users db1)
                    else Inr (users db1)) of
                Inl e \<Rightarrow> (server_error e, db1)
              | Inr us1 \<Rightarrow>
                 (case (if assignedUser t' \<noteq> [] \<and> \<not> completed t'
                        then addTaskToUser (assignedUser t') (task_id t) us1
                        else Inr us1) of
                    Inl e \<Rightarrow> (server_error e, db1\<lparr>users := us1\<rparr>)
                  | Inr us2 \<Rightarrow>
                     (case (if completed t' \<and> \<not> oldCompleted \<and> assignedUser t' \<noteq> []
                            then removeTaskFromUser (assignedUser t') (task_id t) us2
                            else Inr us2) of
                        Inl e \<Rightarrow> (server_error e, db1\<lparr>users := us2\<rparr>)
                      | Inr us3 \<Rightarrow> (respond 200 ''Task updated'' (TaskDoc t'), db1\<lparr>users := us3\<rparr>)))))"

definition tasks_put :: "string \<Rightarrow> task_body \<Rightarrow> db \<Rightarrow> response \<times> db" where
  "tasks_put rid body db =
     (if \<not> isValid rid then (respond 400 ''Bad Request: invalid task id format'' NoData, db)
      else if \<not> str_truthy (b_name body) \<or> \<not> str_truthy (b_deadline body)
      then (respond 400 ''Bad Request: name and deadline are required'' NoData, db)
      else (case findById task_id rid (tasks db) of
              Inl e \<Rightarrow> (server_error e, db)
            | Inr None \<Rightarrow> (respond 404 ''Not Found'' NoData, db)
            | Inr (Some t) \<Rightarrow>
                if completed t
                then (respond 400 ''Bad Request: cannot modify a completed task'' NoData, db)
                else (case resolve_assigned body db of
                        Inl r \<Rightarrow> (r, db)
                      | Inr resolved \<Rightarrow> tasks_put_apply t body resolved db)))"

section \<open>routes/users.js\<close>

record user_body =
  ub_name :: "string option"
  ub_email :: "string option"
  ub_pendingTasks :: "listval option"

text \<open>\<^verbatim>\<open>GET /api/users\<close>: \<^verbatim>\<open>select\<close> is
  \<^verbatim>\<open>parseJSONParam(req.query.select) || parseJSONParam(req.query.filter)\<close>, and there is no
  default limit.\<close>

definition users_get_list :: "lib \<Rightarrow> query \<Rightarrow> list_outcome" where
  "users_get_list lib q =
     (let whr = parseJSONParam (JSON_parse lib) (q_where q);
          srt = parseJSONParam (JSON_parse lib) (q_sort q);
          sel = js_or (parseJSONParam (JSON_parse lib) (q_select q))
                  (parseJSONParam (JSON_parse lib) (q_filter q));
          skipN = (if str_truthy (q_skip q) then Some (parseInt (str_or (q_skip q) [])) else None);
          limitN = (if str_truthy (q_limit q) then Some (parseInt (str_or (q_limit q) []))
                    else None);
          count = (q_count q = Some ''true'')
      in if whr = Some JNull \<or> srt = Some JNull \<or> sel = Some JNull
         then Respond (respond 400 ''Bad Request: malformed JSON in query parameters'' NoData)
         else if refused (select_accepts lib) sel \<or> refused (sort_accepts lib) srt
         then Respond uncaught_error
         else if count then CountDocuments (filter_of whr)
         else Find (build_query whr sel srt skipN limitN))"

text \<open>\<^verbatim>\<open>GET /api/users/:id\<close>: the id goes to \<^verbatim>\<open>findById\<close> as it is; a rejected query
  is answered by the \<^verbatim>\<open>.catch\<close> with 500.\<close>

definition users_get_by_id :: "lib \<Rightarrow> string \<Rightarrow> query \<Rightarrow> db \<Rightarrow> response" where
  "users_get_by_id lib rid q db =
     (let sel = js_or (parseJSONParam (JSON_parse lib) (q_select q))
                  (parseJSONParam (JSON_parse lib) (q_filter q)) in
      if sel = Some JNull then respond 400 ''Bad Request: malformed JSON in select'' NoData
      else if refused (select_accepts lib) sel then uncaught_error
      else (case findById user_id rid (users db) of
              Inl e \<Rightarrow> server_error e
            | Inr found \<Rightarrow>
                if refused (store_projects lib) sel then server_error QueryError
                else (case found of
                        None \<Rightarrow> respond 404 ''Not Found'' NoData
                      | Some u \<Rightarrow>
                          respond 200 ''OK''
                            (case clause_of sel of None \<Rightarrow> UserDoc u | Some j \<Rightarrow> UserDocSel j u))))"

text \<open>\<^verbatim>\<open>var pendingTasks = req.body.pendingTasks || []\<close>\<close>

definition pending_or_empty :: "listval option \<Rightarrow> listval" where
  "pending_or_empty v =
     (case v of None \<Rightarrow> LArr []
      | Some (LStr s) \<Rightarrow> if s = [] then LArr [] else LStr s
      | Some (LArr xs) \<Rightarrow> LArr xs)"

text \<open>\<^verbatim>\<open>POST /api/users\<close>: the check that no listed task is completed; \<open>Some\<close> is the
  response that ends the request.\<close>

definition users_post_check :: "listval \<Rightarrow> db \<Rightarrow> response option" where
  "users_post_check pending db =
     (case pending of
        LStr s \<Rightarrow> None
      | LArr xs \<Rightarrow>
          if xs \<noteq> [] then
            (case findTasksIn xs (tasks db) of
               Inl e \<Rightarrow> Some (respond 400 ''Bad Request: invalid task id in pendingTasks'' (ErrorData e))
             | Inr tasksFound \<Rightarrow>
                 let completedIds = map task_id (filter completed tasksFound) in
                 if completedIds \<noteq> []
                 then Some (respond 400 ''Bad Request: cannot add completed tasks to pendingTasks''
                              (IdList completedIds))
                 else None)
          else None)"

text \<open>
  \<^verbatim>\<open>POST /api/users\<close>. The new document's identifier is the argument \<open>new_id\<close>. The
  \<^verbatim>\<open>Task.updateMany\<close> that follows the save is not awaited and its failure is swallowed;
  it is applied here before the next request.
\<close>

definition users_post :: "string \<Rightarrow> user_body \<Rightarrow> db \<Rightarrow> response \<times> db" where
  "users_post new_id body db =
     (let nm = ub_name body;
          em = ub_email body;
          pending = pending_or_empty (ub_pendingTasks body)
      in if \<not> str_truthy nm \<or> \<not> str_truthy em
         then (respond 400 ''Bad Request: name and email are required'' NoData, db)
         else if find (\<lambda>u. email u = str_or em []) (users db) \<noteq> None
         then (respond 400 ''Bad Request: email already exists'' NoData, db)
         else (case users_post_check pending db of
                 Some r \<Rightarrow> (r, db)
               | None \<Rightarrow>
                   let saved = \<lparr>user_id = new_id, user_name = str_or nm [], email = str_or em [],
                                pendingTasks = cast_pendingTasks pending\<rparr>;
                       db1 = db\<lparr>users := users db @ [saved]\<rparr>;
                       db2 = (case pending of
                                LStr s \<Rightarrow> db1
                              | LArr xs \<Rightarrow>
                                  if xs \<noteq> [] then
                                    (case assignTasksIn xs new_id (user_name saved) (tasks db1) of
                                       Inl e \<Rightarrow> db1 | Inr ts \<Rightarrow> db1\<lparr>tasks := ts\<rparr>)
                                  else db1)
                   in (respond 201 ''User created'' (UserDoc saved), db2)))"

text \<open>\<^verbatim>\<open>PUT /api/users/:id\<close>. \<^verbatim>\<open>newPending\<close>, \<^verbatim>\<open>toRemove\<close> and \<^verbatim>\<open>toAdd\<close>:\<close>

definition newPending_of :: "user_body \<Rightarrow> string list" where
  "newPending_of body = (case ub_pendingTasks body of Some (LArr xs) \<Rightarrow> xs | _ \<Rightarrow> [])"

definition toRemove_of :: "user \<Rightarrow> string list \<Rightarrow> string list" where
  "toRemove_of u newPending = filter (\<lambda>t. t \<notin> set newPending) (pendingTasks u)"

definition toAdd_of :: "user \<Rightarrow> string list \<Rightarrow> string list" where
  "toAdd_of u newPending = filter (\<lambda>t. t \<notin> set (pendingTasks u)) newPending"

text \<open>\<^verbatim>\<open>User.updateMany({ _id: { $ne: id }, pendingTasks: { $in: toAdd } },
  { $pull: { pendingTasks: { $in: toAdd } } })\<close>, with \<open>k\<close> the cast identifier.\<close>

definition pullFromOthers :: "string \<Rightarrow> string list \<Rightarrow> user list \<Rightarrow> user list" where
  "pullFromOthers k toAdd us =
     updateMany (\<lambda>u. user_id u \<noteq> k \<and> list_ex (\<lambda>p. p \<in> set toAdd) (pendingTasks u))
       (\<lambda>u. u\<lparr>pendingTasks := filter (\<lambda>p. p \<notin> set toAdd) (pendingTasks u)\<rparr>) us"

text \<open>The block \<^verbatim>\<open>if (toAdd.length > 0) { ... }\<close>: the response that ends the request, if
  any, and the store as the block leaves it.\<close>

definition users_put_add :: "string \<Rightarrow> string \<Rightarrow> string \<Rightarrow> string list \<Rightarrow> db \<Rightarrow> response option \<times> db" where
  "users_put_add rid k nm toAdd db =
     (case find (\<lambda>x. \<not> isValid x) toAdd of
        Some bad \<Rightarrow>
          (Some (respond 400 ''Bad Request: invalid task id format in pendingTasks'' (IdOne bad)), db)
      | None \<Rightarrow>
         (case findTasksIn toAdd (tasks db) of
            Inl e \<Rightarrow>
              (Some (respond 400 ''Bad Request: invalid task id in pendingTasks'' (ErrorData e)), db)
          | Inr tasksFound \<Rightarrow>
              if length tasksFound \<noteq> length toAdd then
                let foundIds = map task_id tasksFound;
                    missing = filter (\<lambda>x. x \<notin> set foundIds) toAdd
                in (Some (respond 404 ''Not Found: some task ids do not exist'' (IdList missing)), db)
              else
                let completedIds = map task_id (filter completed tasksFound) in
                if completedIds \<noteq> []
                then (Some (respond 400 ''Bad Request: cannot add completed tasks to pendingTasks''
                              (IdList completedIds)), db)
                else
                  let db1 = db\<lparr>users := pullFromOthers k toAdd (users db)\<rparr> in
                  (case assignTasksIn toAdd rid nm (tasks db1) of
                     Inl e \<Rightarrow> (Some (server_error e), db1)
                   | Inr ts \<Rightarrow> (None, db1\<lparr>tasks := ts\<rparr>))))"

text \<open>From \<^verbatim>\<open>var newPending\<close> to the response, for the user document \<open>u\<close> found. A
  response sent after \<^verbatim>\<open>toRemove\<close> was applied leaves those writes in the store.\<close>

definition users_put_apply :: "string \<Rightarrow> string \<Rightarrow> user \<Rightarrow> user_body \<Rightarrow> db \<Rightarrow> response \<times> db" where
  "users_put_apply rid k u body db =
     (let newPending = newPending_of body;
          toRemove = toRemove_of u newPending;
          toAdd = toAdd_of u newPending
      in (case (if toRemove \<noteq> [] then assignTasksIn toRemove [] ''unassigned'' (tasks db)
                else Inr (tasks db)) of
            Inl e \<Rightarrow> (server_error e, db)
          | Inr ts1 \<Rightarrow>
             (case (if toAdd \<noteq> []
                    then users_put_add rid k (str_or (ub_name body) []) toAdd (db\<lparr>tasks := ts1\<rparr>)
                    else (None, db\<lparr>tasks := ts1\<rparr>)) of
                (Some r, db2) \<Rightarrow> (r, db2)
              | (None, db2) \<Rightarrow>
                  let saved = u\<lparr>user_name := str_or (ub_name body) [],
                                email := str_or (ub_email body) [],
                                pendingTasks := newPending\<rparr>
                  in (respond 200 ''User updated'' (UserDoc saved),
                      db2\<lparr>users := updateOne (\<lambda>x. user_id x = user_id u)
                                      (\<lambda>x. x\<lparr>user_name := str_or (ub_name body) [],
                                              email := str_or (ub_email body) [],
                                              pendingTasks := newPending\<rparr>) (users db2)\<rparr>))))"

definition users_put :: "string \<Rightarrow> user_body \<Rightarrow> db \<Rightarrow> response \<times> db" where
  "users_put rid body db =
     (if \<not> str_truthy (ub_name body) \<or> \<not> str_truthy (ub_email body)
      then (respond 400 ''Bad Request: name and email are required'' NoData, db)
      else (case castObjectId rid of
              None \<Rightarrow> (respond 400 ''Bad Request: invalid user id format'' NoData, db)
            | Some k \<Rightarrow>
                if find (\<lambda>x. email x = str_or (ub_email body) [] \<and> user_id x \<noteq> k) (users db) \<noteq> None
                then (respond 400 ''Bad Request: email already exists'' NoData, db)
                else (case findById user_id rid (users db) of
                        Inl e \<Rightarrow> (server_error e, db)
                      | Inr None \<Rightarrow> (respond 404 ''Not Found'' NoData, db)
                      | Inr (Some u) \<Rightarrow> users_put_apply rid k u body db)))"

text \<open>\<^verbatim>\<open>DELETE /api/users/:id\<close>\<close>

definition users_delete :: "string \<Rightarrow> db \<Rightarrow> response \<times> db" where
  "users_delete rid db =
     (case findById user_id rid (users db) of
        Inl e \<Rightarrow> (server_error e, db)
      | Inr None \<Rightarrow> (respond 404 ''Not Found'' NoData, db)
      | Inr (Some u) \<Rightarrow>
         (case (if pendingTasks u \<noteq> [] then assignTasksIn (pendingTasks u) [] ''unassigned'' (tasks db)
                else Inr (tasks db)) of
            Inl e \<Rightarrow> (server_error e, db)
          | Inr ts \<Rightarrow>
              (respond 204 [] NoBody,
               \<lparr>tasks = ts, users = deleteOne (\<lambda>x. Some (user_id x) = castObjectId rid) (users db)\<rparr>)))"

section \<open>The invariant on assigned names\<close>

text \<open>
  Invariant I3 of the specification, for one task and for the store: the task's
  \<^verbatim>\<open>assignedUserName\<close> is \<^verbatim>\<open>"unassigned"\<close> when \<^verbatim>\<open>assignedUser\<close> is empty, and otherwise the
  name of the user that \<^verbatim>\<open>assignedUser\<close> refers to.
\<close>

definition name_current :: "db \<Rightarrow> task \<Rightarrow> bool" where
  "name_current db t =
     (if assignedUser t = [] then assignedUserName t = ''unassigned''
      else (case findById user_id (assignedUser t) (users db) of
              Inr (Some u) \<Rightarrow> assignedUserName t = user_name u
            | _ \<Rightarrow> False))"

definition I3 :: "db \<Rightarrow> bool" where
  "I3 db = list_all (name_current db) (tasks db)"

text \<open>Two user collections with the same identifiers and names, document by document.\<close>

definition same_names :: "user list \<Rightarrow> user list \<Rightarrow> bool" where
  "same_names us us' =
     (map (\<lambda>u. (user_id u, user_name u)) us' = map (\<lambda>u. (user_id u, user_name u)) us)"

text \<open>The task with identifier \<open>k\<close> is in the user's \<^verbatim>\<open>pendingTasks\<close>, under any spelling that
  casts to \<open>k\<close>.\<close>

definition pending_for :: "user \<Rightarrow> string \<Rightarrow> bool" where
  "pending_for u k = list_ex (\<lambda>p. castObjectId p = Some k) (pendingTasks u)"

section \<open>An example store\<close>

text \<open>Two users and two tasks, and requests against them, on which the theorems below
  are exercised.\<close>

definition al_id :: string where "al_id = ''64b000000000000000000001''"
definition bo_id :: string where "bo_id = ''64b000000000000000000002''"
definition no_id :: string where "no_id = ''64b0000000000000000000ff''"
definition cy_id :: string where "cy_id = ''64b000000000000000000003''"
definition t1_id :: string where "t1_id = ''64c000000000000000000001''"
definition t1_upper :: string where "t1_upper = ''64C000000000000000000001''"
definition t2_id :: string where "t2_id = ''64c000000000000000000002''"
definition t3_id :: string where "t3_id = ''64c000000000000000000003''"

definition al :: user where
  "al = \<lparr>user_id = al_id, user_name = ''Al'', email = ''a@x.com'', pendingTasks = [t1_id]\<rparr>"

definition bo :: user where
  "bo = \<lparr>user_id = bo_id, user_name = ''Bo'', email = ''b@x.com'', pendingTasks = []\<rparr>"

definition t1 :: task where
  "t1 = \<lparr>task_id = t1_id, task_name = ''T1'', description = [], deadline = 1700000000000,
         completed = False, assignedUser = al_id, assignedUserName = ''Al''\<rparr>"

definition t2 :: task where
  "t2 = \<lparr>task_id = t2_id, task_name = ''T2'', description = [], deadline = 1700000000000,
         completed = True, assignedUser = al_id, assignedUserName = ''Al''\<rparr>"

definition db0 :: db where
  "db0 = \<lparr>tasks = [t1, t2], users = [al, bo]\<rparr>"

definition task_req :: "string option \<Rightarrow> string option \<Rightarrow> task_body" where
  "task_req a n = \<lparr>b_name = Some ''T3'', b_deadline = Some ''1700000000000'', b_description = None,
                   b_completed = None, b_assignedUser = a, b_assignedUserName = n\<rparr>"

definition user_req :: "string \<Rightarrow> string \<Rightarrow> listval option \<Rightarrow> user_body" where
  "user_req n e p = \<lparr>ub_name = Some n, ub_email = Some e, ub_pendingTasks = p\<rparr>"

definition no_query :: query where
  "no_query = \<lparr>q_where = None, q_sort = None, q_select = None, q_filter = None,
                q_skip = None, q_limit = None, q_count = None\<rparr>"

text \<open>An instance of \<^verbatim>\<open>JSON.parse\<close> for the examples: it reads the text \<^verbatim>\<open>{}\<close> and rejects
  every other text, as \<^verbatim>\<open>JSON.parse\<close> rejects \<^verbatim>\<open>{bad\<close>.\<close>

definition only_braces :: "string \<Rightarrow> json option" where
  "only_braces s = (if s = ''{}'' then Some (JObj []) else None)"

section \<open>Basic facts\<close>

lemma status_respond [simp]: "status (respond s m d) = s"
  by (simp add: respond_def)

lemma data_respond [simp]: "data (respond s m d) = d"
  by (simp add: respond_def)

lemma status_server_error [simp]: "status (server_error e) = 500"
  by (simp add: server_error_def)

lemma status_uncaught_error [simp]: "status uncaught_error = 500"
  by (simp add: uncaught_error_def)

lemma refused_None [simp]: "refused accepts None = False"
  by (simp add: refused_def clause_of_def truthy_opt_def)

lemma to_double_small [simp]: "n < 9007199254740992 \<Longrightarrow> to_double n = n"
  by (simp add: to_double_def)

lemma validate_deadline_simps [simp]:
  "validate_deadline None = Inl ValidationError" "validate_deadline (Some d) = Inr d"
  by (simp_all add: validate_deadline_def)

lemma cast_pendingTasks_simps [simp]:
  "cast_pendingTasks (LArr xs) = xs" "cast_pendingTasks (LStr s) = [s]"
  by (simp_all add: cast_pendingTasks_def)

lemma findById_valid: "findById idf i ds = Inr r \<Longrightarrow> isValid i"
  by (auto simp: findById_def isValid_def split: option.splits)

lemma find_distinct_id:
  "distinct (map idf ds) \<Longrightarrow> d \<in> set ds \<Longrightarrow> find (\<lambda>x. idf x = idf d) ds = Some d"
  by (induction ds) (auto simp: rev_image_eqI)

lemma findById_Some_id: "findById idf i ds = Inr (Some d) \<Longrightarrow> castObjectId i = Some (idf d)"
  by (auto simp: findById_def split: option.splits dest: find_Some_iff[THEN iffD1])

lemma findById_Some_mem: "findById idf i ds = Inr (Some d) \<Longrightarrow> d \<in> set ds"
  by (auto simp: findById_def find_Some_iff split: option.splits)

lemma find_append_new:
  "\<forall>x\<in>set xs. \<not> P x \<Longrightarrow> find P (xs @ ys) = find P ys"
  by (induction xs) auto

lemma castIds_Some:
  "castIds xs = Some ks \<Longrightarrow> set ks = {k. Some k \<in> castObjectId ` set xs}"
  by (induction xs arbitrary: ks) (auto split: option.splits)

lemma castIds_valid: "list_all isValid xs \<Longrightarrow> \<exists>ks. castIds xs = Some ks"
  by (induction xs) (auto simp: isValid_def)

lemma castIds_None: "castIds xs = None \<Longrightarrow> \<not> list_all isValid xs"
  using castIds_valid by fastforce

lemma list_all_updateOne:
  "list_all P ds \<Longrightarrow> (\<And>d. p d \<Longrightarrow> P d \<Longrightarrow> P (f d)) \<Longrightarrow> list_all P (updateOne p f ds)"
  by (induction ds) auto

lemma updateOne_id:
  "(\<And>d. d \<in> set ds \<Longrightarrow> p d \<Longrightarrow> f d = d) \<Longrightarrow> updateOne p f ds = ds"
  by (induction ds) auto

lemma find_updateOne_same:
  "(\<And>d. q (f d) = q d) \<Longrightarrow> find q (updateOne q f ds) = map_option f (find q ds)"
  by (induction ds) auto

lemma assignTasksIn_Inr:
  "assignTasksIn ids a n ts = Inr ts' \<Longrightarrow>
   ts' = map (\<lambda>t. if Some (task_id t) \<in> castObjectId ` set ids
                   then t\<lparr>assignedUser := a, assignedUserName := n\<rparr> else t) ts"
  by (auto simp: assignTasksIn_def updateMany_def castIds_Some split: option.splits)

lemma pullFromOthers_excl:
  "x \<in> set toAdd \<Longrightarrow> list_all (\<lambda>v. user_id v = k \<or> x \<notin> set (pendingTasks v)) (pullFromOthers k toAdd us)"
  by (induction us) (auto simp: pullFromOthers_def updateMany_def list_ex_iff)

lemma find_pullFromOthers:
  "find (\<lambda>d. user_id d = k) (pullFromOthers k toAdd us) = find (\<lambda>d. user_id d = k) us"
  by (induction us) (auto simp: pullFromOthers_def updateMany_def)

lemma castObjectId_nonempty: "castObjectId a = Some k \<Longrightarrow> a \<noteq> []"
  by (auto simp: castObjectId_def)

lemma updateOne_mem: "find p ds = Some d \<Longrightarrow> f d \<in> set (updateOne p f ds)"
  by (induction ds) (auto split: if_splits)

lemma parseJSONParam_None [simp]: "parseJSONParam parse None = None"
  by (simp add: parseJSONParam_def str_truthy_def)

lemma parseJSONParam_malformed:
  "parse s = None \<Longrightarrow> s \<noteq> [] \<Longrightarrow> parseJSONParam parse (Some s) = Some JNull"
  by (simp add: parseJSONParam_def str_truthy_def str_or_def)

lemma number_clause_parse:
  "number_clause (Some v) = (case v of NaN \<Rightarrow> None | Num n \<Rightarrow> Some n)"
  by (simp add: number_clause_def isNaN_def split: number.splits)

subsection \<open>Identifiers and names of users are kept by the updates of pending lists\<close>

lemma same_names_refl [simp]: "same_names us us"
  by (simp add: same_names_def)

lemma same_names_trans: "same_names a b \<Longrightarrow> same_names b c \<Longrightarrow> same_names a c"
  by (simp add: same_names_def)

lemma same_names_updateOne:
  "(\<And>d. user_id (f d) = user_id d \<and> user_name (f d) = user_name d) \<Longrightarrow>
   same_names us (updateOne p f us)"
  by (induction us) (auto simp: same_names_def)

lemma same_names_find:
  "same_names us us' \<Longrightarrow>
   map_option user_name (find (\<lambda>d. user_id d = k) us') =
   map_option user_name (find (\<lambda>d. user_id d = k) us)"
proof (induction us arbitrary: us')
  case Nil
  then show ?case by (simp add: same_names_def)
next
  case (Cons a us)
  then obtain b vs where us': "us' = b # vs" and ab: "user_id b = user_id a" "user_name b = user_name a"
    and rest: "same_names us vs"
    by (cases us') (auto simp: same_names_def)
  show ?case using Cons.IH [OF rest] ab by (simp add: us')
qed

lemma same_names_findById:
  assumes "same_names us us'" and "findById user_id a us = Inr (Some u)"
  shows "\<exists>u'. findById user_id a us' = Inr (Some u') \<and> user_name u' = user_name u"
proof -
  from assms(2) obtain k where k: "castObjectId a = Some k" and f: "find (\<lambda>d. user_id d = k) us = Some u"
    by (auto simp: findById_def split: option.splits)
  from same_names_find [OF assms(1), of k] f
  obtain u' where "find (\<lambda>d. user_id d = k) us' = Some u'" "user_name u' = user_name u"
    by (cases "find (\<lambda>d. user_id d = k) us'") auto
  then show ?thesis by (simp add: findById_def k)
qed

lemma addTaskToUser_names: "addTaskToUser a t us = Inr us' \<Longrightarrow> same_names us us'"
  by (auto simp: addTaskToUser_def same_names_updateOne split: if_splits option.splits)

lemma removeTaskFromUser_names: "removeTaskFromUser a t us = Inr us' \<Longrightarrow> same_names us us'"
  by (auto simp: removeTaskFromUser_def same_names_updateOne split: if_splits option.splits)

subsection \<open>What a successful request went through\<close>

lemma tasks_post_save_201:
  assumes "tasks_post_save new_id nm descr dl compl a an db = (r, db')" and "status r = 201"
  shows "\<exists>d. r = respond 201 ''Task created''
                  (TaskDoc \<lparr>task_id = new_id, task_name = nm, description = descr, deadline = d,
                            completed = compl, assignedUser = a, assignedUserName = an\<rparr>)
            \<and> tasks db' = tasks db @ [\<lparr>task_id = new_id, task_name = nm, description = descr, deadline = d,
                            completed = compl, assignedUser = a, assignedUserName = an\<rparr>]
            \<and> same_names (users db) (users db')"
  using assms
  by (cases dl)
     (auto simp: tasks_post_save_def Let_def addTaskToUser_names split: sum.splits if_splits)

lemma resolve_assigned_Inr:
  assumes "resolve_assigned body db = Inr res"
  shows "if str_truthy (b_assignedUser body)
         then \<exists>u. findById user_id (str_or (b_assignedUser body) []) (users db) = Inr (Some u)
                  \<and> res = Some (user_name u)
         else res = None"
  using assms
  by (auto simp: resolve_assigned_def split: if_splits sum.splits option.splits)

lemma resolve_assigned_Inl: "resolve_assigned body db = Inl r \<Longrightarrow> status r \<noteq> 200"
  by (auto simp: resolve_assigned_def split: if_splits sum.splits option.splits)

lemma tasks_put_apply_200:
  assumes "tasks_put_apply t body res db = (r, db')" and "status r = 200"
  shows "\<exists>d. r = respond 200 ''Task updated'' (TaskDoc (updated_task t body res d))
           \<and> tasks db' = updateOne (\<lambda>x. task_id x = task_id t) (\<lambda>x. updated_task t body res d) (tasks db)
           \<and> same_names (users db) (users db')"
proof (cases "newDate (parseInt (str_or (b_deadline body) []))")
  case None
  with assms show ?thesis by (auto simp: tasks_put_apply_def)
next
  case (Some d)
  let ?t' = "updated_task t body res d"
  let ?db1 = "db\<lparr>tasks := updateOne (\<lambda>x. task_id x = task_id t) (\<lambda>x. ?t') (tasks db)\<rparr>"
  from assms Some obtain us1 where
    1: "(if assignedUser t \<noteq> [] \<and> assignedUser t \<noteq> assignedUser ?t'
         then removeTaskFromUser (assignedUser t) (task_id t) (users ?db1)
         else Inr (users ?db1)) = Inr us1"
    by (auto simp: tasks_put_apply_def Let_def split: sum.splits)
  from assms Some 1 obtain us2 where
    2: "(if assignedUser ?t' \<noteq> [] \<and> \<not> completed ?t'
         then addTaskToUser (assignedUser ?t') (task_id t) us1 else Inr us1) = Inr us2"
    by (auto simp: tasks_put_apply_def Let_def split: sum.splits)
  from assms Some 1 2 obtain us3 where
    3: "(if completed ?t' \<and> \<not> completed t \<and> assignedUser ?t' \<noteq> []
         then removeTaskFromUser (assignedUser ?t') (task_id t) us2 else Inr us2) = Inr us3"
    by (auto simp: tasks_put_apply_def Let_def split: sum.splits)
  from assms Some 1 2 3 have r: "r = respond 200 ''Task updated'' (TaskDoc ?t')"
    and db': "db' = ?db1\<lparr>users := us3\<rparr>"
    by (simp_all add: tasks_put_apply_def Let_def)
  have "same_names (users db) us1"
    using 1 by (auto split: if_splits dest: removeTaskFromUser_names)
  moreover have "same_names us1 us2"
    using 2 by (auto split: if_splits dest: addTaskToUser_names)
  moreover have "same_names us2 us3"
    using 3 by (auto split: if_splits dest: removeTaskFromUser_names)
  ultimately have "same_names (users db) us3"
    by (blast intro: same_names_trans)
  with r db' show ?thesis by (intro exI [of _ d]) simp
qed

lemma users_post_check_Some: "users_post_check p db = Some r \<Longrightarrow> status r = 400"
  by (auto simp: users_post_check_def Let_def split: listval.splits if_splits sum.splits)

lemma users_put_add_None:
  "users_put_add rid k nm toAdd db = (None, db2) \<Longrightarrow>
     users db2 = pullFromOthers k toAdd (users db) \<and>
     assignTasksIn toAdd rid nm (tasks db) = Inr (tasks db2)"
  by (auto simp: users_put_add_def Let_def split: option.splits sum.splits if_splits)

lemma users_put_200:
  assumes "users_put rid body db = (r, db')" and "status r = 200"
  obtains k u ts1 db2 where
    "castObjectId rid = Some k" "findById user_id rid (users db) = Inr (Some u)"
    "str_truthy (ub_name body)" "str_truthy (ub_email body)"
    "(if toRemove_of u (newPending_of body) \<noteq> [] then assignTasksIn (toRemove_of u (newPending_of body)) [] ''unassigned'' (tasks db) else Inr (tasks db)) = Inr ts1"
    "(if toAdd_of u (newPending_of body) \<noteq> [] then users_put_add rid k (str_or (ub_name body) []) (toAdd_of u (newPending_of body)) (db\<lparr>tasks := ts1\<rparr>) else (None, db\<lparr>tasks := ts1\<rparr>)) = (None, db2)"
    "r = respond 200 ''User updated'' (UserDoc (u\<lparr>user_name := str_or (ub_name body) [], email := str_or (ub_email body) [], pendingTasks := newPending_of body\<rparr>))"
    "db' = db2\<lparr>users := updateOne (\<lambda>x. user_id x = user_id u)
                                      (\<lambda>x. x\<lparr>user_name := str_or (ub_name body) [],
                                              email := str_or (ub_email body) [],
                                              pendingTasks := newPending_of body\<rparr>) (users db2)\<rparr>"
proof -
  from assms have t: "str_truthy (ub_name body)" "str_truthy (ub_email body)"
    by (auto simp: users_put_def split: if_splits)
  from assms t obtain k where k: "castObjectId rid = Some k"
    by (cases "castObjectId rid") (auto simp: users_put_def)
  from assms t k obtain u where u: "findById user_id rid (users db) = Inr (Some u)"
    and ap: "users_put_apply rid k u body db = (r, db')"
    by (auto simp: users_put_def split: if_splits sum.splits option.splits)
  let ?np = "newPending_of body"
  from ap assms(2) obtain ts1 where ts1:
    "(if toRemove_of u ?np \<noteq> [] then assignTasksIn (toRemove_of u ?np) [] ''unassigned'' (tasks db) else Inr (tasks db)) = Inr ts1"
    by (auto simp: users_put_apply_def Let_def split: sum.splits)
  obtain ro db2 where add:
    "(if toAdd_of u ?np \<noteq> [] then users_put_add rid k (str_or (ub_name body) []) (toAdd_of u ?np) (db\<lparr>tasks := ts1\<rparr>) else (None, db\<lparr>tasks := ts1\<rparr>)) = (ro, db2)"
    by (metis surj_pair)
  have ro: "ro = None"
  proof (cases ro)
    case (Some r')
    with ap ts1 add have "r = r'" "db' = db2"
      by (simp_all add: users_put_apply_def Let_def)
    moreover from add Some have "status r' \<noteq> 200"
      by (auto simp: users_put_add_def Let_def split: option.splits sum.splits if_splits)
    ultimately show ?thesis using assms(2) by simp
  qed simp
  from ap ts1 add ro have
    "r = respond 200 ''User updated'' (UserDoc (u\<lparr>user_name := str_or (ub_name body) [], email := str_or (ub_email body) [], pendingTasks := ?np\<rparr>))"
    "db' = db2\<lparr>users := updateOne (\<lambda>x. user_id x = user_id u)
                                      (\<lambda>x. x\<lparr>user_name := str_or (ub_name body) [],
                                              email := str_or (ub_email body) [],
                                              pendingTasks := ?np\<rparr>) (users db2)\<rparr>"
    by (simp_all add: users_put_apply_def Let_def)
  with that k u t ts1 add ro show thesis by blast
qed

lemma users_post_201:
  assumes "users_post new_id body db = (r, db')" and "status r = 201"
  shows "str_truthy (ub_name body) \<and> str_truthy (ub_email body)
       \<and> find (\<lambda>u. email u = str_or (ub_email body) []) (users db) = None
       \<and> r = respond 201 ''User created''
               (UserDoc \<lparr>user_id = new_id, user_name = str_or (ub_name body) [],
                  email = str_or (ub_email body) [],
                  pendingTasks = cast_pendingTasks (pending_or_empty (ub_pendingTasks body))\<rparr>)
       \<and> users db' = users db @ [\<lparr>user_id = new_id, user_name = str_or (ub_name body) [],
                  email = str_or (ub_email body) [],
                  pendingTasks = cast_pendingTasks (pending_or_empty (ub_pendingTasks body))\<rparr>]"
proof -
  from assms have t: "str_truthy (ub_name body)" "str_truthy (ub_email body)"
    by (auto simp: users_post_def Let_def split: if_splits)
  from assms t have f: "find (\<lambda>u. email u = str_or (ub_email body) []) (users db) = None"
    by (auto simp: users_post_def Let_def split: if_splits)
  from assms t f have c: "users_post_check (pending_or_empty (ub_pendingTasks body)) db = None"
    by (cases "users_post_check (pending_or_empty (ub_pendingTasks body)) db")
       (auto simp: users_post_def Let_def users_post_check_def split: listval.splits sum.splits if_splits)
  from assms(1) t f c show ?thesis
    by (auto simp: users_post_def Let_def split: listval.splits sum.splits if_splits)
qed

lemma users_post_201_tasks:
  assumes "users_post new_id body db = (r, db')" and "status r = 201"
    and "ub_pendingTasks body = Some (LArr ps)"
  shows "tasks db' = map (\<lambda>t. if Some (task_id t) \<in> castObjectId ` set ps
                   then t\<lparr>assignedUser := new_id, assignedUserName := str_or (ub_name body) []\<rparr> else t) (tasks db)"
proof (cases "ps = []")
  case True
  with assms show ?thesis
    by (auto simp: users_post_def Let_def pending_or_empty_def split: if_splits option.splits)
next
  case False
  from assms have c: "users_post_check (LArr ps) db = None"
    by (cases "users_post_check (LArr ps) db")
       (auto simp: users_post_def Let_def pending_or_empty_def split: if_splits
             dest: users_post_check_Some)
  with False obtain ks where ks: "castIds ps = Some ks"
    by (cases "castIds ps") (auto simp: users_post_check_def findTasksIn_def)
  then obtain ts where ts: "assignTasksIn ps new_id (str_or (ub_name body) []) (tasks db) = Inr ts"
    by (simp add: assignTasksIn_def)
  from assms c False ts have "tasks db' = ts"
    by (auto simp: users_post_def Let_def pending_or_empty_def split: if_splits)
  with assignTasksIn_Inr [OF ts] show ?thesis by simp
qed

lemma users_put_200_tasks:
  assumes "users_put rid body db = (r, db')" and "status r = 200"
    and "findById user_id rid (users db) = Inr (Some u)"
  shows "tasks db' =
           map (\<lambda>t. if Some (task_id t) \<in> castObjectId ` set (toAdd_of u (newPending_of body))
                    then t\<lparr>assignedUser := rid, assignedUserName := str_or (ub_name body) []\<rparr> else t)
             (map (\<lambda>t. if Some (task_id t) \<in> castObjectId ` set (toRemove_of u (newPending_of body))
                        then t\<lparr>assignedUser := [], assignedUserName := ''unassigned''\<rparr> else t)
                (tasks db))"
    and "findById user_id rid (users db') =
           Inr (Some (u\<lparr>user_name := str_or (ub_name body) [], email := str_or (ub_email body) [],
                          pendingTasks := newPending_of body\<rparr>))"
proof -
  let ?np = "newPending_of body"
  from assms(1,2) obtain k u' ts1 db2 where
    k: "castObjectId rid = Some k" and u': "findById user_id rid (users db) = Inr (Some u')"
    and rem: "(if toRemove_of u' ?np \<noteq> [] then assignTasksIn (toRemove_of u' ?np) [] ''unassigned'' (tasks db) else Inr (tasks db)) = Inr ts1"
    and add: "(if toAdd_of u' ?np \<noteq> [] then users_put_add rid k (str_or (ub_name body) []) (toAdd_of u' ?np) (db\<lparr>tasks := ts1\<rparr>) else (None, db\<lparr>tasks := ts1\<rparr>)) = (None, db2)"
    and db': "db' = db2\<lparr>users := updateOne (\<lambda>x. user_id x = user_id u')
                                      (\<lambda>x. x\<lparr>user_name := str_or (ub_name body) [],
                                              email := str_or (ub_email body) [],
                                              pendingTasks := ?np\<rparr>) (users db2)\<rparr>"
    by (rule users_put_200)
  from u' assms(3) have [simp]: "u' = u" by simp
  have uk: "user_id u = k" using findById_Some_id [OF assms(3)] k by simp
  have ts1: "ts1 = map (\<lambda>t. if Some (task_id t) \<in> castObjectId ` set (toRemove_of u ?np)
                        then t\<lparr>assignedUser := [], assignedUserName := ''unassigned''\<rparr> else t) (tasks db)"
  proof (cases "toRemove_of u ?np = []")
    case True
    with rem show ?thesis by simp
  next
    case False
    with rem show ?thesis by (simp add: assignTasksIn_Inr)
  qed
  have ts2: "tasks db2 = map (\<lambda>t. if Some (task_id t) \<in> castObjectId ` set (toAdd_of u ?np)
                    then t\<lparr>assignedUser := rid, assignedUserName := str_or (ub_name body) []\<rparr> else t) ts1"
  proof (cases "toAdd_of u ?np = []")
    case True
    with add show ?thesis by auto
  next
    case False
    with add have "users_put_add rid k (str_or (ub_name body) []) (toAdd_of u ?np) (db\<lparr>tasks := ts1\<rparr>) = (None, db2)"
      by simp
    from users_put_add_None [OF this] show ?thesis
      by (simp add: assignTasksIn_Inr)
  qed
  have us2: "find (\<lambda>d. user_id d = k) (users db2) = find (\<lambda>d. user_id d = k) (users db)"
  proof (cases "toAdd_of u ?np = []")
    case True
    with add show ?thesis by auto
  next
    case False
    with add have "users_put_add rid k (str_or (ub_name body) []) (toAdd_of u ?np) (db\<lparr>tasks := ts1\<rparr>) = (None, db2)"
      by simp
    from users_put_add_None [OF this] show ?thesis
      by (simp add: find_pullFromOthers)
  qed
  show "tasks db' =
           map (\<lambda>t. if Some (task_id t) \<in> castObjectId ` set (toAdd_of u ?np)
                    then t\<lparr>assignedUser := rid, assignedUserName := str_or (ub_name body) []\<rparr> else t)
             (map (\<lambda>t. if Some (task_id t) \<in> castObjectId ` set (toRemove_of u ?np)
                        then t\<lparr>assignedUser := [], assignedUserName := ''unassigned''\<rparr> else t)
                (tasks db))"
    by (simp add: db' ts2 ts1)
  have f: "find (\<lambda>d. user_id d = k) (users db) = Some u"
    using k assms(3) by (simp add: findById_def)
  show "findById user_id rid (users db') =
           Inr (Some (u\<lparr>user_name := str_or (ub_name body) [], email := str_or (ub_email body) [],
                          pendingTasks := ?np\<rparr>))"
    by (simp add: db' findById_def k uk find_updateOne_same us2 f)
qed

lemma users_delete_204:
  assumes "users_delete rid db = (r, db')" and "status r = 204"
    and "findById user_id rid (users db) = Inr (Some u)"
  shows "tasks db' = map (\<lambda>t. if Some (task_id t) \<in> castObjectId ` set (pendingTasks u)
                        then t\<lparr>assignedUser := [], assignedUserName := ''unassigned''\<rparr> else t) (tasks db)"
proof (cases "pendingTasks u = []")
  case True
  with assms show ?thesis by (auto simp: users_delete_def)
next
  case False
  with assms show ?thesis
    by (auto simp: users_delete_def assignTasksIn_Inr split: sum.splits)
qed

subsection \<open>The tasks an operation writes\<close>

lemma tasks_post_name_current:
  assumes "tasks_post new_id body db = (r, db')" and "status r = 201"
    and "str_truthy (b_assignedUser body)"
  shows "\<exists>t. data r = TaskDoc t \<and> t \<in> set (tasks db') \<and> name_current db' t"
proof -
  let ?a = "str_or (b_assignedUser body) []"
  have a: "?a \<noteq> []" using assms(3) by (auto simp: str_truthy_def str_or_def split: option.splits)
  from assms(1,2) a obtain u where u: "findById user_id ?a (users db) = Inr (Some u)"
    by (auto simp: tasks_post_def Let_def split: if_splits sum.splits option.splits)
  from assms(1,2) a u obtain nm descr dl compl where
    sv: "tasks_post_save new_id nm descr dl compl ?a (user_name u) db = (r, db')"
    by (auto simp: tasks_post_def Let_def split: if_splits)
  from tasks_post_save_201 [OF sv assms(2)] obtain d where
    r: "r = respond 201 ''Task created''
                  (TaskDoc \<lparr>task_id = new_id, task_name = nm, description = descr, deadline = d,
                            completed = compl, assignedUser = ?a, assignedUserName = user_name u\<rparr>)"
    and ts: "tasks db' = tasks db @ [\<lparr>task_id = new_id, task_name = nm, description = descr, deadline = d,
                            completed = compl, assignedUser = ?a, assignedUserName = user_name u\<rparr>]"
    and sn: "same_names (users db) (users db')"
    by blast
  from same_names_findById [OF sn u] obtain u' where
    "findById user_id ?a (users db') = Inr (Some u')" "user_name u' = user_name u" by blast
  then show ?thesis
    using a by (simp add: r ts name_current_def)
qed

lemma tasks_put_name_current:
  assumes "tasks_put rid body db = (r, db')" and "status r = 200"
    and "str_truthy (b_assignedUser body) \<or> \<not> str_truthy (b_assignedUserName body)"
  shows "\<exists>t. data r = TaskDoc t \<and> t \<in> set (tasks db') \<and> name_current db' t"
proof -
  from assms(1,2) obtain t where t: "findById task_id rid (tasks db) = Inr (Some t)"
    by (auto simp: tasks_put_def split: if_splits sum.splits option.splits)
  from assms(1,2) t obtain res where res: "resolve_assigned body db = Inr res"
    and ap: "tasks_put_apply t body res db = (r, db')"
    by (auto simp: tasks_put_def split: if_splits sum.splits dest: resolve_assigned_Inl)
  from tasks_put_apply_200 [OF ap assms(2)] obtain d where
    r: "r = respond 200 ''Task updated'' (TaskDoc (updated_task t body res d))"
    and ts: "tasks db' = updateOne (\<lambda>x. task_id x = task_id t) (\<lambda>x. updated_task t body res d) (tasks db)"
    and sn: "same_names (users db) (users db')"
    by blast
  let ?t' = "updated_task t body res d"
  from t have "find (\<lambda>x. task_id x = task_id t) (tasks db) = Some t"
    by (auto simp: findById_def find_Some_iff split: option.splits)
  then have mem: "?t' \<in> set (tasks db')"
    unfolding ts by (rule updateOne_mem)
  have "name_current db' ?t'"
  proof (cases "str_truthy (b_assignedUser body)")
    case True
    with resolve_assigned_Inr [OF res] obtain u where
      u: "findById user_id (str_or (b_assignedUser body) []) (users db) = Inr (Some u)"
      and rs: "res = Some (user_name u)" by auto
    from same_names_findById [OF sn u] obtain u' where
      "findById user_id (str_or (b_assignedUser body) []) (users db') = Inr (Some u')"
      "user_name u' = user_name u" by blast
    moreover have "str_or (b_assignedUser body) [] \<noteq> []"
      using True by (auto simp: str_truthy_def str_or_def split: option.splits)
    ultimately show ?thesis
      by (simp add: name_current_def updated_task_def rs)
  next
    case False
    with resolve_assigned_Inr [OF res] have rs: "res = None" by simp
    from False have e: "str_or (b_assignedUser body) [] = []"
      by (auto simp: str_truthy_def str_or_def split: option.splits)
    from False assms(3) have "str_or (b_assignedUserName body) ''unassigned'' = ''unassigned''"
      by (auto simp: str_truthy_def str_or_def split: option.splits)
    then show ?thesis
      by (simp add: name_current_def updated_task_def rs e)
  qed
  with r mem show ?thesis by simp
qed

lemma users_post_name_current:
  assumes "users_post new_id body db = (r, db')" and "status r = 201"
    and "castObjectId new_id = Some new_id" and "new_id \<notin> user_id ` set (users db)"
    and "ub_pendingTasks body = Some (LArr ps)"
  shows "list_all (\<lambda>t. Some (task_id t) \<in> castObjectId ` set ps \<longrightarrow> name_current db' t) (tasks db')"
proof -
  let ?nu = "\<lparr>user_id = new_id, user_name = str_or (ub_name body) [],
              email = str_or (ub_email body) [], pendingTasks = ps\<rparr>"
  from users_post_201 [OF assms(1,2)] assms(5) have us: "users db' = users db @ [?nu]"
    by (simp add: pending_or_empty_def)
  have "\<forall>x\<in>set (users db). \<not> user_id x = new_id" using assms(4) by auto
  then have "find (\<lambda>d. user_id d = new_id) (users db @ [?nu]) = Some ?nu"
    by (simp add: find_append_new)
  then have fnd: "findById user_id new_id (users db') = Inr (Some ?nu)"
    by (simp add: findById_def assms(3) us)
  have ne: "new_id \<noteq> []" using assms(3) by (rule castObjectId_nonempty)
  show ?thesis
    unfolding users_post_201_tasks [OF assms(1,2,5)]
    using fnd ne by (auto simp: list_all_iff name_current_def)
qed

lemma users_put_name_current:
  assumes "users_put rid body db = (r, db')" and "status r = 200"
    and "findById user_id rid (users db) = Inr (Some u)"
  shows "list_all (\<lambda>t. Some (task_id t) \<in> castObjectId `
                         (set (toAdd_of u (newPending_of body)) \<union> set (toRemove_of u (newPending_of body)))
                       \<longrightarrow> name_current db' t) (tasks db')"
proof -
  have ne: "rid \<noteq> []"
    using assms(3) by (auto simp: findById_def split: option.splits dest: castObjectId_nonempty)
  show ?thesis
    unfolding users_put_200_tasks(1) [OF assms]
    using users_put_200_tasks(2) [OF assms] ne
    by (auto simp: list_all_iff name_current_def)
qed

lemma users_delete_name_current:
  assumes "users_delete rid db = (r, db')" and "status r = 204"
    and "findById user_id rid (users db) = Inr (Some u)"
  shows "list_all (\<lambda>t. Some (task_id t) \<in> castObjectId ` set (pendingTasks u) \<longrightarrow> name_current db' t)
           (tasks db')"
  unfolding users_delete_204 [OF assms]
  by (auto simp: list_all_iff name_current_def)

subsection \<open>The pull from the other users\<close>

text \<open>After a successful \<^verbatim>\<open>PUT /api/users/:id\<close> no other user's list holds a newly added id in
  the spelling of the request, and the user updated holds the list of the request.\<close>

lemma users_put_pulls_same_spelling:
  assumes "users_put rid body db = (r, db')" and "status r = 200"
    and "castObjectId rid = Some k"
    and "findById user_id rid (users db) = Inr (Some u)"
    and "x \<in> set (newPending_of body)" and "x \<notin> set (pendingTasks u)"
  shows "list_all (\<lambda>v. user_id v = k \<or> x \<notin> set (pendingTasks v)) (users db')
       \<and> findById user_id rid (users db') =
           Inr (Some (u\<lparr>user_name := str_or (ub_name body) [], email := str_or (ub_email body) [],
                          pendingTasks := newPending_of body\<rparr>))"
proof -
  let ?np = "newPending_of body"
  from assms(1,2) obtain k' u' ts1 db2 where
    k': "castObjectId rid = Some k'" and u': "findById user_id rid (users db) = Inr (Some u')"
    and add: "(if toAdd_of u' ?np \<noteq> [] then users_put_add rid k' (str_or (ub_name body) []) (toAdd_of u' ?np) (db\<lparr>tasks := ts1\<rparr>) else (None, db\<lparr>tasks := ts1\<rparr>)) = (None, db2)"
    and db': "db' = db2\<lparr>users := updateOne (\<lambda>x. user_id x = user_id u')
                                      (\<lambda>x. x\<lparr>user_name := str_or (ub_name body) [],
                                              email := str_or (ub_email body) [],
                                              pendingTasks := ?np\<rparr>) (users db2)\<rparr>"
    by (rule users_put_200)
  from k' u' assms(3,4) have [simp]: "k' = k" "u' = u" by simp_all
  have uk: "user_id u = k" using findById_Some_id [OF assms(4)] assms(3) by simp
  have x: "x \<in> set (toAdd_of u ?np)" using assms(5,6) by (simp add: toAdd_of_def)
  then have ne: "toAdd_of u ?np \<noteq> []" by auto
  from add ne have us2: "users db2 = pullFromOthers k (toAdd_of u ?np) (users db)"
    using users_put_add_None by fastforce
  have "list_all (\<lambda>v. user_id v = k \<or> x \<notin> set (pendingTasks v)) (users db2)"
    unfolding us2 by (rule pullFromOthers_excl [OF x])
  then have A: "list_all (\<lambda>v. user_id v = k \<or> x \<notin> set (pendingTasks v)) (users db')"
    unfolding db' by (auto intro!: list_all_updateOne simp: uk)
  have f: "find (\<lambda>d. user_id d = k) (users db) = Some u"
    using assms(3,4) by (simp add: findById_def)
  have "find (\<lambda>d. user_id d = k) (users db2) = Some u"
    unfolding us2 using f by (simp add: find_pullFromOthers)
  then have B: "findById user_id rid (users db') =
           Inr (Some (u\<lparr>user_name := str_or (ub_name body) [], email := str_or (ub_email body) [],
                          pendingTasks := ?np\<rparr>))"
    unfolding db' by (simp add: findById_def assms(3) uk find_updateOne_same)
  from A B show ?thesis by simp
qed

lemma pullFromOthers_sublist:
  "list_all (\<lambda>v. list_all P (pendingTasks v)) us \<Longrightarrow>
   list_all (\<lambda>v. list_all P (pendingTasks v)) (pullFromOthers k toAdd us)"
  by (induction us) (auto simp: pullFromOthers_def updateMany_def list_all_iff)

text \<open>When the lists in the store and the id added are in canonical spelling, no other
  user has the task pending afterwards.\<close>

lemma users_put_one_owner_canonical:
  assumes "users_put rid body db = (r, db')" and "status r = 200"
    and "castObjectId rid = Some k"
    and "findById user_id rid (users db) = Inr (Some u)"
    and "x \<in> set (newPending_of body)" and "x \<notin> set (pendingTasks u)"
    and "castObjectId x = Some x"
    and "list_all (\<lambda>v. list_all (\<lambda>p. castObjectId p = Some p) (pendingTasks v)) (users db)"
  shows "list_all (\<lambda>v. user_id v = k \<or> \<not> pending_for v x) (users db')"
proof -
  let ?np = "newPending_of body"
  let ?canon = "\<lambda>v. list_all (\<lambda>p. castObjectId p = Some p) (pendingTasks v)"
  from assms(1,2) obtain k' u' ts1 db2 where
    k': "castObjectId rid = Some k'" and u': "findById user_id rid (users db) = Inr (Some u')"
    and add: "(if toAdd_of u' ?np \<noteq> [] then users_put_add rid k' (str_or (ub_name body) []) (toAdd_of u' ?np) (db\<lparr>tasks := ts1\<rparr>) else (None, db\<lparr>tasks := ts1\<rparr>)) = (None, db2)"
    and db': "db' = db2\<lparr>users := updateOne (\<lambda>x. user_id x = user_id u')
                                      (\<lambda>x. x\<lparr>user_name := str_or (ub_name body) [],
                                              email := str_or (ub_email body) [],
                                              pendingTasks := ?np\<rparr>) (users db2)\<rparr>"
    by (rule users_put_200)
  from k' u' assms(3,4) have [simp]: "k' = k" "u' = u" by simp_all
  have uk: "user_id u = k" using findById_Some_id [OF assms(4)] assms(3) by simp
  have x: "x \<in> set (toAdd_of u ?np)" using assms(5,6) by (simp add: toAdd_of_def)
  then have ne: "toAdd_of u ?np \<noteq> []" by auto
  from add ne have us2: "users db2 = pullFromOthers k (toAdd_of u ?np) (users db)"
    using users_put_add_None by fastforce
  have "list_all (\<lambda>v. user_id v = k \<or> x \<notin> set (pendingTasks v)) (users db2)"
    unfolding us2 by (rule pullFromOthers_excl [OF x])
  moreover have "list_all ?canon (users db2)"
    unfolding us2 using assms(8) by (rule pullFromOthers_sublist)
  ultimately have "list_all (\<lambda>v. user_id v = k \<or> \<not> pending_for v x) (users db2)"
    using assms(7) by (auto simp: list_all_iff pending_for_def list_ex_iff)
  then show ?thesis
    unfolding db' by (auto intro!: list_all_updateOne simp: uk)
qed

subsection \<open>The handlers that read\<close>

lemma users_get_by_id_missing:
  assumes "findById user_id rid (users db) = Inr None"
    and "sel = js_or (parseJSONParam (JSON_parse lib) (q_select q))
                 (parseJSONParam (JSON_parse lib) (q_filter q))"
    and "sel \<noteq> Some JNull"
    and "\<not> refused (select_accepts lib) sel" and "\<not> refused (store_projects lib) sel"
  shows "status (users_get_by_id lib rid q db) = 404"
  using assms by (simp add: users_get_by_id_def Let_def)

lemma list_malformed_400:
  assumes "JSON_parse lib s = None" and "s \<noteq> []"
    and "q_where q = Some s \<or> q_sort q = Some s"
  shows "tasks_get_list lib q =
           Respond (respond 400 ''Bad Request: malformed JSON in query parameters'' NoData)"
    and "users_get_list lib q =
           Respond (respond 400 ''Bad Request: malformed JSON in query parameters'' NoData)"
  using assms
  by (auto simp: users_get_list_def tasks_get_list_def Let_def parseJSONParam_malformed)

subsection \<open>The example store\<close>

lemmas cast_defs = castObjectId_def is_hex_def digit_val_def lower_hex_def hex_digit_def

lemma cast_al_id: "castObjectId al_id = Some al_id"
  by (simp add: al_id_def cast_defs)

lemma cast_bo_id: "castObjectId bo_id = Some bo_id"
  by (simp add: bo_id_def cast_defs)

lemma cast_no_id: "castObjectId no_id = Some no_id"
  by (simp add: no_id_def cast_defs)

lemma cast_t1_id: "castObjectId t1_id = Some t1_id"
  by (simp add: t1_id_def cast_defs)

lemma cast_t2_id: "castObjectId t2_id = Some t2_id"
  by (simp add: t2_id_def cast_defs)

lemma cast_t3_id: "castObjectId t3_id = Some t3_id"
  by (simp add: t3_id_def cast_defs)

lemma cast_zzz: "castObjectId ''zzz'' = None"
  by (simp add: cast_defs)

lemma ids_distinct:
  "al_id \<noteq> bo_id" "al_id \<noteq> no_id" "bo_id \<noteq> no_id" "t1_id \<noteq> t2_id" "t1_id \<noteq> t3_id" "t2_id \<noteq> t3_id"
  "bo_id \<noteq> al_id" "no_id \<noteq> al_id" "no_id \<noteq> bo_id" "t2_id \<noteq> t1_id" "t3_id \<noteq> t1_id" "t3_id \<noteq> t2_id"
  "al_id \<noteq> []" "bo_id \<noteq> []" "no_id \<noteq> []"
  by (simp_all add: al_id_def bo_id_def no_id_def t1_id_def t2_id_def t3_id_def)

lemma deadline_ok: "newDate (parseInt ''1700000000000'') = Some 1700000000000"
  by (simp add: newDate_def parseInt_def is_ws_def in_radix_def digit_val_def digits_value_def)

lemma find_al: "findById user_id al_id (users db0) = Inr (Some al)"
  by (simp add: findById_def cast_al_id db0_def al_def)

lemma find_no: "findById user_id no_id (users db0) = Inr None"
  by (simp add: findById_def cast_no_id db0_def al_def bo_def ids_distinct)

lemma task_req_fields:
  "str_truthy (b_name (task_req a n))" "str_truthy (b_deadline (task_req a n))"
  "b_assignedUser (task_req a n) = a" "b_assignedUserName (task_req a n) = n"
  "newDate (parseInt (str_or (b_deadline (task_req a n)) [])) = Some 1700000000000"
  by (simp_all add: task_req_def str_truthy_def str_or_def deadline_ok)

lemma cast_cy_id: "castObjectId cy_id = Some cy_id"
  by (simp add: cy_id_def cast_defs)

lemma cy_fresh: "cy_id \<notin> user_id ` set (users db0)"
  by (simp add: db0_def al_def bo_def cy_id_def al_id_def bo_id_def)

lemma find_bo: "findById user_id bo_id (users db0) = Inr (Some bo)"
  by (simp add: findById_def cast_bo_id db0_def al_def bo_def ids_distinct)

lemma valid_ids: "isValid al_id" "isValid bo_id" "isValid no_id" "isValid t1_id" "isValid t2_id" "isValid t3_id"
  by (simp_all add: isValid_def cast_al_id cast_bo_id cast_no_id cast_t1_id cast_t2_id cast_t3_id)

lemma user_req_fields:
  "ub_name (user_req n e p) = Some n" "ub_email (user_req n e p) = Some e"
  "ub_pendingTasks (user_req n e p) = p"
  by (simp_all add: user_req_def)

lemmas store_defs = db0_def al_def bo_def t1_def t2_def

lemmas handler_defs = str_truthy_def str_or_def Let_def findById_def findTasksIn_def
  assignTasksIn_def updateMany_def user_req_fields

lemma users_put_bo_takes_t1:
  "users_put bo_id (user_req ''Bo'' ''b@x.com'' (Some (LArr [t1_id]))) db0 =
     (respond 200 ''User updated'' (UserDoc (bo\<lparr>pendingTasks := [t1_id]\<rparr>)),
      \<lparr>tasks = [t1\<lparr>assignedUser := bo_id, assignedUserName := ''Bo''\<rparr>, t2],
       users = [al\<lparr>pendingTasks := []\<rparr>, bo\<lparr>pendingTasks := [t1_id]\<rparr>]\<rparr>)"
  by (simp add: users_put_def users_put_apply_def users_put_add_def user_req_fields str_truthy_def
      str_or_def cast_bo_id findById_def newPending_of_def toRemove_of_def toAdd_of_def valid_ids
      findTasksIn_def assignTasksIn_def cast_t1_id pullFromOthers_def updateMany_def Let_def
      db0_def al_def bo_def t1_def t2_def ids_distinct)

lemma users_post_cy:
  "users_post cy_id (user_req ''Cy'' ''c@x.com'' (Some (LArr [t1_id, t3_id]))) db0 =
     (respond 201 ''User created''
        (UserDoc \<lparr>user_id = cy_id, user_name = ''Cy'', email = ''c@x.com'', pendingTasks = [t1_id, t3_id]\<rparr>),
      \<lparr>tasks = [t1\<lparr>assignedUser := cy_id, assignedUserName := ''Cy''\<rparr>, t2],
       users = [al, bo, \<lparr>user_id = cy_id, user_name = ''Cy'', email = ''c@x.com'', pendingTasks = [t1_id, t3_id]\<rparr>]\<rparr>)"
  by (simp add: users_post_def users_post_check_def pending_or_empty_def handler_defs
      cast_t1_id cast_t3_id store_defs ids_distinct)



lemma users_put_al_renamed:
  "users_put al_id (user_req ''Bob'' ''a@x.com'' (Some (LArr [t1_id]))) db0 =
     (respond 200 ''User updated'' (UserDoc (al\<lparr>user_name := ''Bob''\<rparr>)),
      \<lparr>tasks = [t1, t2], users = [al\<lparr>user_name := ''Bob''\<rparr>, bo]\<rparr>)"
  by (simp add: users_put_def users_put_apply_def newPending_of_def toRemove_of_def toAdd_of_def
      handler_defs cast_al_id cast_t1_id store_defs ids_distinct)

lemma task_post_unassigned_stores_empty_name:
  "tasks_post t3_id (task_req None None) db0 =
     (respond 201 ''Task created''
        (TaskDoc \<lparr>task_id = t3_id, task_name = ''T3'', description = [], deadline = 1700000000000,
                  completed = False, assignedUser = [], assignedUserName = []\<rparr>),
      db0\<lparr>tasks := tasks db0 @ [\<lparr>task_id = t3_id, task_name = ''T3'', description = [], deadline = 1700000000000,
                  completed = False, assignedUser = [], assignedUserName = []\<rparr>]\<rparr>)"
  by (simp add: tasks_post_def tasks_post_save_def task_req_def str_truthy_def str_or_def
      completed_flag_def deadline_ok Let_def)

lemma tasks_post_for_al:
  "tasks_post t3_id (task_req (Some al_id) None) db0 =
     (respond 201 ''Task created''
        (TaskDoc \<lparr>task_id = t3_id, task_name = ''T3'', description = [], deadline = 1700000000000,
                  completed = False, assignedUser = al_id, assignedUserName = ''Al''\<rparr>),
      \<lparr>tasks = [t1, t2, \<lparr>task_id = t3_id, task_name = ''T3'', description = [], deadline = 1700000000000,
                  completed = False, assignedUser = al_id, assignedUserName = ''Al''\<rparr>],
       users = [al\<lparr>pendingTasks := [t1_id, t3_id]\<rparr>, bo]\<rparr>)"
  by (simp add: tasks_post_def tasks_post_save_def task_req_def completed_flag_def deadline_ok
      addTaskToUser_def isValid_def handler_defs cast_al_id store_defs ids_distinct)

lemma tasks_put_t1_to_bo:
  "tasks_put t1_id (task_req (Some bo_id) None) db0 =
     (respond 200 ''Task updated''
        (TaskDoc \<lparr>task_id = t1_id, task_name = ''T3'', description = [], deadline = 1700000000000,
                  completed = False, assignedUser = bo_id, assignedUserName = ''Bo''\<rparr>),
      \<lparr>tasks = [\<lparr>task_id = t1_id, task_name = ''T3'', description = [], deadline = 1700000000000,
                  completed = False, assignedUser = bo_id, assignedUserName = ''Bo''\<rparr>, t2],
       users = [al\<lparr>pendingTasks := []\<rparr>, bo\<lparr>pendingTasks := [t1_id]\<rparr>]\<rparr>)"
  by (simp add: tasks_put_def tasks_put_apply_def resolve_assigned_def updated_task_def task_req_def
      completed_flag_def deadline_ok addTaskToUser_def removeTaskFromUser_def isValid_def
      handler_defs cast_al_id cast_bo_id cast_t1_id store_defs ids_distinct)

lemma users_delete_al:
  "users_delete al_id db0 =
     (respond 204 [] NoBody,
      \<lparr>tasks = [t1\<lparr>assignedUser := [], assignedUserName := ''unassigned''\<rparr>, t2], users = [bo]\<rparr>)"
  by (simp add: users_delete_def handler_defs cast_al_id cast_t1_id store_defs ids_distinct)

lemma parseInt_abc: "parseInt ''abc'' = NaN"
  by (simp add: parseInt_def is_ws_def in_radix_def digit_val_def digits_value_def)

lemma parseInt_minus5: "parseInt ''-5'' = Num (- 5)"
  by (simp add: parseInt_def is_ws_def in_radix_def digit_val_def digits_value_def)

lemma tasks_list_no_query:
  "tasks_get_list lib no_query =
     Find \<lparr>f_filter = JObj [], f_select = None, f_sort = None, f_skip = None, f_limit = Some 100\<rparr>"
  by (simp add: tasks_get_list_def no_query_def js_or_def truthy_opt_def build_query_def
        filter_of_def clause_of_def number_clause_def isNaN_def str_truthy_def)

lemma cast_t1_upper: "castObjectId t1_upper = Some t1_id"
  by (simp add: t1_upper_def t1_id_def cast_defs)

lemma t1_upper_neq: "t1_upper \<noteq> t1_id" "t1_id \<noteq> t1_upper"
  by (simp_all add: t1_upper_def t1_id_def)

lemma valid_t1_upper: "isValid t1_upper"
  by (simp add: isValid_def cast_t1_upper)

lemma users_put_bo_takes_t1_upper:
  "users_put bo_id (user_req ''Bo'' ''b@x.com'' (Some (LArr [t1_upper]))) db0 =
     (respond 200 ''User updated'' (UserDoc (bo\<lparr>pendingTasks := [t1_upper]\<rparr>)),
      \<lparr>tasks = [t1\<lparr>assignedUser := bo_id, assignedUserName := ''Bo''\<rparr>, t2],
       users = [al, bo\<lparr>pendingTasks := [t1_upper]\<rparr>]\<rparr>)"
  by (simp add: users_put_def users_put_apply_def users_put_add_def user_req_fields str_truthy_def
      str_or_def cast_bo_id findById_def newPending_of_def toRemove_of_def toAdd_of_def valid_t1_upper
      findTasksIn_def assignTasksIn_def cast_t1_upper pullFromOthers_def updateMany_def Let_def
      db0_def al_def bo_def t1_def t2_def ids_distinct t1_upper_neq)

section \<open>The assigned name across operations\<close>

text \<open>
  C1, as the specification states it (invariant I3 holds for every task after any
  operation), fails: a \<^verbatim>\<open>PUT /api/users/:id\<close> that renames a user and keeps its list writes
  no task, so the pending task keeps the old name. In the example store, where I3 holds,
  Al is renamed to Bob with the same list; the request succeeds, the task still says
  \<^verbatim>\<open>"Al"\<close>, and I3 no longer holds.
\<close>

theorem rename_leaves_stale_name:
  "I3 db0
   \<and> status (fst (users_put al_id (user_req ''Bob'' ''a@x.com'' (Some (LArr [t1_id]))) db0)) = 200
   \<and> \<not> I3 (snd (users_put al_id (user_req ''Bob'' ''a@x.com'' (Some (LArr [t1_id]))) db0))
   \<and> tasks (snd (users_put al_id (user_req ''Bob'' ''a@x.com'' (Some (LArr [t1_id]))) db0)) = [t1, t2]
   \<and> assignedUser t1 = al_id \<and> assignedUserName t1 = ''Al''
   \<and> findById user_id al_id
        (users (snd (users_put al_id (user_req ''Bob'' ''a@x.com'' (Some (LArr [t1_id]))) db0))) =
       Inr (Some (al\<lparr>user_name := ''Bob''\<rparr>))"
  unfolding users_put_al_renamed
  by (simp add: I3_def name_current_def findById_def cast_al_id store_defs ids_distinct)

text \<open>
  C1, amended. Every task that an operation writes carries a current name afterwards:
  the task created or updated by a task request that names a user, and the task updated
  by a request that names no user and gives no \<^verbatim>\<open>assignedUserName\<close>; the tasks listed in
  a created user's \<^verbatim>\<open>pendingTasks\<close>; the tasks that a user update adds to or drops from
  \<^verbatim>\<open>pendingTasks\<close>; and the pending tasks of a deleted user. (A created user's identifier
  is canonical and not in the store.)
\<close>

theorem written_tasks_carry_current_name:
  "(tasks_post new_id tb db = (r, db') \<and> status r = 201 \<and> str_truthy (b_assignedUser tb) \<longrightarrow>
      (\<exists>t. data r = TaskDoc t \<and> t \<in> set (tasks db') \<and> name_current db' t))
 \<and> (tasks_put rid tb db = (r, db') \<and> status r = 200
      \<and> (str_truthy (b_assignedUser tb) \<or> \<not> str_truthy (b_assignedUserName tb)) \<longrightarrow>
      (\<exists>t. data r = TaskDoc t \<and> t \<in> set (tasks db') \<and> name_current db' t))
 \<and> (users_post new_id ub db = (r, db') \<and> status r = 201 \<and> castObjectId new_id = Some new_id
      \<and> new_id \<notin> user_id ` set (users db) \<and> ub_pendingTasks ub = Some (LArr ps) \<longrightarrow>
      list_all (\<lambda>t. Some (task_id t) \<in> castObjectId ` set ps \<longrightarrow> name_current db' t) (tasks db'))
 \<and> (users_put rid ub db = (r, db') \<and> status r = 200
      \<and> findById user_id rid (users db) = Inr (Some u) \<longrightarrow>
      list_all (\<lambda>t. Some (task_id t) \<in> castObjectId `
                       (set (toAdd_of u (newPending_of ub)) \<union> set (toRemove_of u (newPending_of ub)))
                     \<longrightarrow> name_current db' t) (tasks db'))
 \<and> (users_delete rid db = (r, db') \<and> status r = 204
      \<and> findById user_id rid (users db) = Inr (Some u) \<longrightarrow>
      list_all (\<lambda>t. Some (task_id t) \<in> castObjectId ` set (pendingTasks u) \<longrightarrow> name_current db' t)
        (tasks db'))"
  using tasks_post_name_current [of new_id tb db r db']
    tasks_put_name_current [of rid tb db r db']
    users_post_name_current [of new_id ub db r db' ps]
    users_put_name_current [of rid ub db r db' u]
    users_delete_name_current [of rid db r db' u]
  by blast

theorem written_tasks_carry_current_name_witness:
  "(status (fst (tasks_post t3_id (task_req (Some al_id) None) db0)) = 201
    \<and> name_current (snd (tasks_post t3_id (task_req (Some al_id) None) db0))
         \<lparr>task_id = t3_id, task_name = ''T3'', description = [], deadline = 1700000000000,
           completed = False, assignedUser = al_id, assignedUserName = ''Al''\<rparr>)
 \<and> (status (fst (tasks_put t1_id (task_req (Some bo_id) None) db0)) = 200
    \<and> name_current (snd (tasks_put t1_id (task_req (Some bo_id) None) db0))
         \<lparr>task_id = t1_id, task_name = ''T3'', description = [], deadline = 1700000000000,
           completed = False, assignedUser = bo_id, assignedUserName = ''Bo''\<rparr>)
 \<and> (status (fst (users_post cy_id (user_req ''Cy'' ''c@x.com'' (Some (LArr [t1_id, t3_id]))) db0)) = 201
    \<and> name_current (snd (users_post cy_id (user_req ''Cy'' ''c@x.com'' (Some (LArr [t1_id, t3_id]))) db0))
         (t1\<lparr>assignedUser := cy_id, assignedUserName := ''Cy''\<rparr>))
 \<and> (status (fst (users_put bo_id (user_req ''Bo'' ''b@x.com'' (Some (LArr [t1_id]))) db0)) = 200
    \<and> name_current (snd (users_put bo_id (user_req ''Bo'' ''b@x.com'' (Some (LArr [t1_id]))) db0))
         (t1\<lparr>assignedUser := bo_id, assignedUserName := ''Bo''\<rparr>))
 \<and> (status (fst (users_delete al_id db0)) = 204
    \<and> name_current (snd (users_delete al_id db0))
         (t1\<lparr>assignedUser := [], assignedUserName := ''unassigned''\<rparr>))"
proof -
  have 1: "status (fst (tasks_post t3_id (task_req (Some al_id) None) db0)) = 201
    \<and> name_current (snd (tasks_post t3_id (task_req (Some al_id) None) db0))
         \<lparr>task_id = t3_id, task_name = ''T3'', description = [], deadline = 1700000000000,
           completed = False, assignedUser = al_id, assignedUserName = ''Al''\<rparr>"
    using written_tasks_carry_current_name [where new_id = t3_id and tb = "task_req (Some al_id) None"
        and db = db0 and r = "fst (tasks_post t3_id (task_req (Some al_id) None) db0)"
        and db' = "snd (tasks_post t3_id (task_req (Some al_id) None) db0)"]
    by (simp add: tasks_post_for_al task_req_fields str_truthy_def ids_distinct)
  have 2: "status (fst (tasks_put t1_id (task_req (Some bo_id) None) db0)) = 200
    \<and> name_current (snd (tasks_put t1_id (task_req (Some bo_id) None) db0))
         \<lparr>task_id = t1_id, task_name = ''T3'', description = [], deadline = 1700000000000,
           completed = False, assignedUser = bo_id, assignedUserName = ''Bo''\<rparr>"
    using written_tasks_carry_current_name [where rid = t1_id and tb = "task_req (Some bo_id) None"
        and db = db0 and r = "fst (tasks_put t1_id (task_req (Some bo_id) None) db0)"
        and db' = "snd (tasks_put t1_id (task_req (Some bo_id) None) db0)"]
    by (simp add: tasks_put_t1_to_bo task_req_fields str_truthy_def ids_distinct)
  have 3: "status (fst (users_post cy_id (user_req ''Cy'' ''c@x.com'' (Some (LArr [t1_id, t3_id]))) db0)) = 201
    \<and> name_current (snd (users_post cy_id (user_req ''Cy'' ''c@x.com'' (Some (LArr [t1_id, t3_id]))) db0))
         (t1\<lparr>assignedUser := cy_id, assignedUserName := ''Cy''\<rparr>)"
    using written_tasks_carry_current_name [where new_id = cy_id
        and ub = "user_req ''Cy'' ''c@x.com'' (Some (LArr [t1_id, t3_id]))" and ps = "[t1_id, t3_id]"
        and db = db0 and r = "fst (users_post cy_id (user_req ''Cy'' ''c@x.com'' (Some (LArr [t1_id, t3_id]))) db0)"
        and db' = "snd (users_post cy_id (user_req ''Cy'' ''c@x.com'' (Some (LArr [t1_id, t3_id]))) db0)"]
      cy_fresh
    by (simp add: users_post_cy user_req_fields cast_cy_id cast_t1_id t1_def)
  have 4: "status (fst (users_put bo_id (user_req ''Bo'' ''b@x.com'' (Some (LArr [t1_id]))) db0)) = 200
    \<and> name_current (snd (users_put bo_id (user_req ''Bo'' ''b@x.com'' (Some (LArr [t1_id]))) db0))
         (t1\<lparr>assignedUser := bo_id, assignedUserName := ''Bo''\<rparr>)"
    using written_tasks_carry_current_name [where rid = bo_id and u = bo
        and ub = "user_req ''Bo'' ''b@x.com'' (Some (LArr [t1_id]))"
        and db = db0 and r = "fst (users_put bo_id (user_req ''Bo'' ''b@x.com'' (Some (LArr [t1_id]))) db0)"
        and db' = "snd (users_put bo_id (user_req ''Bo'' ''b@x.com'' (Some (LArr [t1_id]))) db0)"]
      find_bo
    by (simp add: users_put_bo_takes_t1 user_req_fields newPending_of_def toAdd_of_def toRemove_of_def
        bo_def cast_t1_id t1_def)
  have 5: "status (fst (users_delete al_id db0)) = 204
    \<and> name_current (snd (users_delete al_id db0))
         (t1\<lparr>assignedUser := [], assignedUserName := ''unassigned''\<rparr>)"
    using written_tasks_carry_current_name [where rid = al_id and u = al
        and db = db0 and r = "fst (users_delete al_id db0)" and db' = "snd (users_delete al_id db0)"]
      find_al
    by (simp add: users_delete_al al_def cast_t1_id t1_def)
  from 1 2 3 4 5 show ?thesis by blast
qed

section \<open>Updating a completed task\<close>

text \<open>
  C2. A task that is stored with \<^verbatim>\<open>completed\<close> true cannot be updated: whatever the body
  of a \<^verbatim>\<open>PUT /api/tasks/:id\<close> that names it, the answer has status 400 and the store is
  left as it was. (Identifiers in the collection are unique, and \<open>rid\<close> is the request's
  \<^verbatim>\<open>:id\<close>, which casts to the task's identifier.)
\<close>

theorem completed_task_put_rejected:
  assumes "t \<in> set (tasks db)" and "distinct (map task_id (tasks db))"
    and "castObjectId rid = Some (task_id t)" and "completed t"
  shows "status (fst (tasks_put rid body db)) = 400 \<and> snd (tasks_put rid body db) = db"
proof -
  have "findById task_id rid (tasks db) = Inr (Some t)"
    using assms(1-3) by (simp add: findById_def find_distinct_id)
  with assms(3,4) show ?thesis
    by (simp add: tasks_put_def isValid_def)
qed

theorem completed_task_put_rejected_witness:
  "t2 \<in> set (tasks db0) \<and> distinct (map task_id (tasks db0))
   \<and> castObjectId t2_id = Some (task_id t2) \<and> completed t2
   \<and> status (fst (tasks_put t2_id (task_req None None) db0)) = 400
   \<and> snd (tasks_put t2_id (task_req None None) db0) = db0"
proof -
  have h1: "t2 \<in> set (tasks db0)" by (simp add: db0_def)
  have h2: "distinct (map task_id (tasks db0))" by (simp add: db0_def t1_def t2_def ids_distinct)
  have h3: "castObjectId t2_id = Some (task_id t2)" by (simp add: cast_t2_id t2_def)
  have h4: "completed t2" by (simp add: t2_def)
  show ?thesis
    using completed_task_put_rejected [OF h1 h2 h3 h4, of "task_req None None"] h1 h2 h3 h4
    by simp
qed

section \<open>One pending owner per task\<close>

text \<open>
  C3. A \<^verbatim>\<open>PUT /api/users/:id\<close> that adds a task pending for another user should leave the
  task in no other user's \<^verbatim>\<open>pendingTasks\<close>. The handler finds and reassigns the tasks by
  their cast identifiers, but its \<^verbatim>\<open>$pull\<close> from the other users compares the strings of
  the request with the strings stored. In the example store Al holds the task
  \<^verbatim>\<open>64c000000000000000000001\<close>; Bo is updated with this identifier written
  \<^verbatim>\<open>64C000000000000000000001\<close>. The request succeeds, the task is assigned to Bo, and
  it is pending for both Al and Bo.
\<close>

theorem other_spelling_two_owners:
  "castObjectId t1_upper = Some t1_id
   \<and> map user_id (filter (\<lambda>u. pending_for u t1_id) (users db0)) = [al_id]
   \<and> status (fst (users_put bo_id (user_req ''Bo'' ''b@x.com'' (Some (LArr [t1_upper]))) db0)) = 200
   \<and> tasks (snd (users_put bo_id (user_req ''Bo'' ''b@x.com'' (Some (LArr [t1_upper]))) db0)) =
       [t1\<lparr>assignedUser := bo_id, assignedUserName := ''Bo''\<rparr>, t2]
   \<and> users (snd (users_put bo_id (user_req ''Bo'' ''b@x.com'' (Some (LArr [t1_upper]))) db0)) =
       [al, bo\<lparr>pendingTasks := [t1_upper]\<rparr>]
   \<and> map user_id (filter (\<lambda>u. pending_for u t1_id)
         (users (snd (users_put bo_id (user_req ''Bo'' ''b@x.com'' (Some (LArr [t1_upper]))) db0)))) =
       [al_id, bo_id]"
  unfolding users_put_bo_takes_t1_upper
  by (simp add: pending_for_def cast_t1_upper cast_t1_id db0_def al_def bo_def)

theorem other_spelling_two_owners_witness:
  "status (fst (users_put bo_id (user_req ''Bo'' ''b@x.com'' (Some (LArr [t1_upper]))) db0)) = 200
   \<and> pending_for al t1_id
   \<and> pending_for (bo\<lparr>pendingTasks := [t1_upper]\<rparr>) t1_id
   \<and> al \<in> set (users (snd (users_put bo_id (user_req ''Bo'' ''b@x.com'' (Some (LArr [t1_upper]))) db0)))
   \<and> bo\<lparr>pendingTasks := [t1_upper]\<rparr>
       \<in> set (users (snd (users_put bo_id (user_req ''Bo'' ''b@x.com'' (Some (LArr [t1_upper]))) db0)))
   \<and> user_id al \<noteq> user_id (bo\<lparr>pendingTasks := [t1_upper]\<rparr>)"
  using other_spelling_two_owners
  by (simp add: pending_for_def cast_t1_upper cast_t1_id al_def bo_def ids_distinct)

section \<open>Creating a task for a user\<close>

text \<open>
  C4. \<^verbatim>\<open>POST /api/tasks\<close> with a non-empty \<^verbatim>\<open>assignedUser\<close> \<open>a\<close>. A malformed \<open>a\<close> is
  answered with 400. When the required \<^verbatim>\<open>name\<close> and \<^verbatim>\<open>deadline\<close> are there (the handler's
  first check): a well-formed \<open>a\<close> with no user behind it is answered with 404; when the
  user exists and the request carries an \<^verbatim>\<open>assignedUserName\<close> that differs from the user's
  name, with 400 and both names, the provided and the actual one; otherwise the task is
  created with the user's name as its \<^verbatim>\<open>assignedUserName\<close> (status 201), unless the
  deadline is no valid date, which the store rejects (500). Nothing is written in the
  failing cases.
\<close>

theorem tasks_post_assigned_user:
  assumes "b_assignedUser body = Some a" and "a \<noteq> []"
  shows "(\<not> isValid a \<longrightarrow>
            status (fst (tasks_post new_id body db)) = 400 \<and> snd (tasks_post new_id body db) = db)
       \<and> (str_truthy (b_name body) \<and> str_truthy (b_deadline body) \<longrightarrow>
           (findById user_id a (users db) = Inr None \<longrightarrow>
              status (fst (tasks_post new_id body db)) = 404 \<and> snd (tasks_post new_id body db) = db)
         \<and> (\<forall>u. findById user_id a (users db) = Inr (Some u) \<longrightarrow>
              (if str_truthy (b_assignedUserName body) \<and> b_assignedUserName body \<noteq> Some (user_name u)
               then tasks_post new_id body db =
                      (respond 400 ''Bad Request: assignedUserName does not match user name''
                         (NameMismatch (str_or (b_assignedUserName body) []) (user_name u)), db)
               else (case newDate (parseInt (str_or (b_deadline body) [])) of
                       None \<Rightarrow> status (fst (tasks_post new_id body db)) = 500
                               \<and> snd (tasks_post new_id body db) = db
                     | Some d \<Rightarrow>
                         status (fst (tasks_post new_id body db)) = 201
                         \<and> (\<exists>t. data (fst (tasks_post new_id body db)) = TaskDoc t
                                \<and> t \<in> set (tasks (snd (tasks_post new_id body db)))
                                \<and> assignedUser t = a \<and> assignedUserName t = user_name u)))))"
proof -
  have a: "str_or (b_assignedUser body) [] = a"
    using assms by (simp add: str_or_def)
  have bad: "status (fst (tasks_post new_id body db)) = 400 \<and> snd (tasks_post new_id body db) = db"
    if "\<not> isValid a"
    using that assms(2) a by (simp add: tasks_post_def Let_def)
  have missing: "status (fst (tasks_post new_id body db)) = 404 \<and> snd (tasks_post new_id body db) = db"
    if "findById user_id a (users db) = Inr None"
      and "str_truthy (b_name body)" and "str_truthy (b_deadline body)"
    using that findById_valid [OF that(1)] assms(2) a by (simp add: tasks_post_def Let_def)
  have found: "if str_truthy (b_assignedUserName body) \<and> b_assignedUserName body \<noteq> Some (user_name u)
             then tasks_post new_id body db =
                    (respond 400 ''Bad Request: assignedUserName does not match user name''
                       (NameMismatch (str_or (b_assignedUserName body) []) (user_name u)), db)
             else (case newDate (parseInt (str_or (b_deadline body) [])) of
                     None \<Rightarrow> status (fst (tasks_post new_id body db)) = 500
                             \<and> snd (tasks_post new_id body db) = db
                   | Some d \<Rightarrow>
                       status (fst (tasks_post new_id body db)) = 201
                       \<and> (\<exists>t. data (fst (tasks_post new_id body db)) = TaskDoc t
                              \<and> t \<in> set (tasks (snd (tasks_post new_id body db)))
                              \<and> assignedUser t = a \<and> assignedUserName t = user_name u))"
    if "findById user_id a (users db) = Inr (Some u)"
      and "str_truthy (b_name body)" and "str_truthy (b_deadline body)" for u
    using that findById_valid [OF that(1)] assms(2) a
    by (cases "newDate (parseInt (str_or (b_deadline body) []))")
       (auto simp: tasks_post_def Let_def tasks_post_save_def str_truthy_def str_or_def
             split: option.splits sum.splits)
  from bad missing found show ?thesis by blast
qed

theorem tasks_post_assigned_user_witness:
  "status (fst (tasks_post t3_id (task_req (Some ''zzz'') None) db0)) = 400
   \<and> status (fst (tasks_post t3_id (task_req (Some no_id) None) db0)) = 404
   \<and> fst (tasks_post t3_id (task_req (Some al_id) (Some ''Bob'')) db0) =
       respond 400 ''Bad Request: assignedUserName does not match user name'' (NameMismatch ''Bob'' ''Al'')
   \<and> status (fst (tasks_post t3_id (task_req (Some al_id) None) db0)) = 201
   \<and> (\<exists>t. data (fst (tasks_post t3_id (task_req (Some al_id) None) db0)) = TaskDoc t
          \<and> assignedUser t = al_id \<and> assignedUserName t = ''Al'')"
proof -
  note n = task_req_fields
  have z: "\<not> isValid ''zzz''" by (simp add: isValid_def cast_zzz)
  have "status (fst (tasks_post t3_id (task_req (Some ''zzz'') None) db0)) = 400"
    using tasks_post_assigned_user [where body = "task_req (Some ''zzz'') None" and a = "''zzz''"
        and new_id = t3_id and db = db0] z n
    by simp
  moreover have "status (fst (tasks_post t3_id (task_req (Some no_id) None) db0)) = 404"
    using tasks_post_assigned_user [where body = "task_req (Some no_id) None" and a = no_id
        and new_id = t3_id and db = db0] find_no n
    by (simp add: ids_distinct)
  moreover have "fst (tasks_post t3_id (task_req (Some al_id) (Some ''Bob'')) db0) =
       respond 400 ''Bad Request: assignedUserName does not match user name'' (NameMismatch ''Bob'' ''Al'')"
    using tasks_post_assigned_user [where body = "task_req (Some al_id) (Some ''Bob'')" and a = al_id
        and new_id = t3_id and db = db0] find_al n
    by (simp add: ids_distinct str_truthy_def str_or_def al_def)
  moreover have "status (fst (tasks_post t3_id (task_req (Some al_id) None) db0)) = 201
     \<and> (\<exists>t. data (fst (tasks_post t3_id (task_req (Some al_id) None) db0)) = TaskDoc t
          \<and> assignedUser t = al_id \<and> assignedUserName t = ''Al'')"
    using tasks_post_assigned_user [where body = "task_req (Some al_id) None" and a = al_id
        and new_id = t3_id and db = db0] find_al n
    by (auto simp add: ids_distinct str_truthy_def al_def)
  ultimately show ?thesis by blast
qed

section \<open>Reading one document by a malformed identifier\<close>

text \<open>
  C5. For an \<^verbatim>\<open>:id\<close> that is no well-formed identifier, \<^verbatim>\<open>GET /api/tasks/:id\<close> answers 400,
  while \<^verbatim>\<open>GET /api/users/:id\<close> has no check of the identifier: the answer is 500, from
  the handler's \<^verbatim>\<open>catch\<close> when \<^verbatim>\<open>findById\<close> rejects the cast, or from Express when
  \<^verbatim>\<open>q.select\<close> throws before that (400 only when \<^verbatim>\<open>select\<close> is malformed too). The
  specification asks for 400 from both.
\<close>

theorem get_by_id_malformed_id:
  assumes "\<not> isValid rid"
  shows "status (tasks_get_by_id lib rid q db) = 400
       \<and> status (users_get_by_id lib rid q db) =
           (if js_or (parseJSONParam (JSON_parse lib) (q_select q)) (parseJSONParam (JSON_parse lib) (q_filter q)) = Some JNull
            then 400 else 500)"
  using assms
  by (auto simp: tasks_get_by_id_def users_get_by_id_def Let_def findById_def isValid_def)

theorem get_by_id_malformed_id_witness:
  "\<forall>lib db. \<not> isValid ''zzz''
     \<and> status (tasks_get_by_id lib ''zzz'' no_query db) = 400
     \<and> status (users_get_by_id lib ''zzz'' no_query db) = 500"
proof (intro allI)
  fix lib db
  have z: "\<not> isValid ''zzz''" by (simp add: isValid_def cast_zzz)
  show "\<not> isValid ''zzz''
     \<and> status (tasks_get_by_id lib ''zzz'' no_query db) = 400
     \<and> status (users_get_by_id lib ''zzz'' no_query db) = 500"
    using get_by_id_malformed_id [OF z, of lib no_query db] z
    by (simp add: no_query_def js_or_def truthy_opt_def)
qed

section \<open>A malformed select on the user listing\<close>

text \<open>
  C6. On \<^verbatim>\<open>GET /api/users\<close> a \<^verbatim>\<open>select\<close> that \<^verbatim>\<open>JSON.parse\<close> rejects is not answered with
  400 when no \<^verbatim>\<open>filter\<close> is given: the \<^verbatim>\<open>null\<close> that signals the parse error is falsy, so
  \<^verbatim>\<open>||\<close> replaces it by the value of the absent \<^verbatim>\<open>filter\<close>, and the request is handled as
  if \<^verbatim>\<open>select\<close> were absent. \<^verbatim>\<open>GET /api/tasks\<close> answers the same request with 400, as
  the specification asks of both.
\<close>

theorem users_list_malformed_select:
  assumes "JSON_parse lib s = None" and "s \<noteq> []" and "q_select q = Some s" and "q_filter q = None"
  shows "users_get_list lib q = users_get_list lib (q\<lparr>q_select := None\<rparr>)
       \<and> tasks_get_list lib q =
           Respond (respond 400 ''Bad Request: malformed JSON in query parameters'' NoData)"
  using assms
  by (simp add: users_get_list_def tasks_get_list_def Let_def parseJSONParam_malformed
      js_or_def truthy_opt_def)

theorem users_list_malformed_select_witness:
  "\<forall>l. JSON_parse (l\<lparr>JSON_parse := only_braces\<rparr>) ''{bad'' = None
   \<and> users_get_list (l\<lparr>JSON_parse := only_braces\<rparr>) (no_query\<lparr>q_select := Some ''{bad''\<rparr>) =
       Find \<lparr>f_filter = JObj [], f_select = None, f_sort = None, f_skip = None, f_limit = None\<rparr>
   \<and> users_get_list (l\<lparr>JSON_parse := only_braces\<rparr>) (no_query\<lparr>q_select := Some ''{bad''\<rparr>) =
       users_get_list (l\<lparr>JSON_parse := only_braces\<rparr>) no_query
   \<and> tasks_get_list (l\<lparr>JSON_parse := only_braces\<rparr>) (no_query\<lparr>q_select := Some ''{bad''\<rparr>) =
       Respond (respond 400 ''Bad Request: malformed JSON in query parameters'' NoData)"
proof
  fix l :: lib
  let ?lib = "l\<lparr>JSON_parse := only_braces\<rparr>"
  have p: "JSON_parse ?lib ''{bad'' = None" by (simp add: only_braces_def)
  have n: "users_get_list ?lib no_query =
       Find \<lparr>f_filter = JObj [], f_select = None, f_sort = None, f_skip = None, f_limit = None\<rparr>"
    by (simp add: users_get_list_def no_query_def js_or_def truthy_opt_def build_query_def
        filter_of_def clause_of_def refused_def number_clause_def isNaN_def str_truthy_def)
  have e: "(no_query\<lparr>q_select := Some ''{bad''\<rparr>)\<lparr>q_select := None\<rparr> = no_query"
    by (simp add: no_query_def)
  show "JSON_parse ?lib ''{bad'' = None
   \<and> users_get_list ?lib (no_query\<lparr>q_select := Some ''{bad''\<rparr>) =
       Find \<lparr>f_filter = JObj [], f_select = None, f_sort = None, f_skip = None, f_limit = None\<rparr>
   \<and> users_get_list ?lib (no_query\<lparr>q_select := Some ''{bad''\<rparr>) = users_get_list ?lib no_query
   \<and> tasks_get_list ?lib (no_query\<lparr>q_select := Some ''{bad''\<rparr>) =
       Respond (respond 400 ''Bad Request: malformed JSON in query parameters'' NoData)"
    using users_list_malformed_select [where lib = ?lib and s = "''{bad''"
        and q = "no_query\<lparr>q_select := Some ''{bad''\<rparr>"] p n e
    by (simp add: no_query_def)
qed

section \<open>Creating a user and repeating its list\<close>

text \<open>
  C7. A user is created with a list of pending tasks (\<open>ps\<close>, for instance \<open>[a, b]\<close>) and
  is then updated at once with the same name, email and list. The update succeeds and
  leaves the whole store as it was, so no task's \<^verbatim>\<open>assignedUser\<close> changes; the update's
  \<^verbatim>\<open>toRemove\<close> and \<^verbatim>\<open>toAdd\<close> are both empty. (The identifier given to the new user is
  a canonical identifier that no stored user has.)
\<close>

theorem create_then_same_update:
  assumes "users_post new_id body db = (r1, db1)" and "status r1 = 201"
    and "castObjectId new_id = Some new_id" and "new_id \<notin> user_id ` set (users db)"
    and "ub_pendingTasks body = Some (LArr ps)"
  shows "users_put new_id body db1 =
           (respond 200 ''User updated''
              (UserDoc \<lparr>user_id = new_id, user_name = str_or (ub_name body) [],
                        email = str_or (ub_email body) [], pendingTasks = ps\<rparr>), db1)
       \<and> toRemove_of \<lparr>user_id = new_id, user_name = str_or (ub_name body) [],
                        email = str_or (ub_email body) [], pendingTasks = ps\<rparr> (newPending_of body) = []
       \<and> toAdd_of \<lparr>user_id = new_id, user_name = str_or (ub_name body) [],
                        email = str_or (ub_email body) [], pendingTasks = ps\<rparr> (newPending_of body) = []"
proof -
  let ?nu = "\<lparr>user_id = new_id, user_name = str_or (ub_name body) [],
              email = str_or (ub_email body) [], pendingTasks = ps\<rparr>"
  have np: "newPending_of body = ps" using assms(5) by (simp add: newPending_of_def)
  from users_post_201 [OF assms(1,2)] assms(5)
  have t: "str_truthy (ub_name body)" "str_truthy (ub_email body)"
    and f: "find (\<lambda>u. email u = str_or (ub_email body) []) (users db) = None"
    and us: "users db1 = users db @ [?nu]"
    by (simp_all add: pending_or_empty_def)
  have other: "find (\<lambda>x. email x = str_or (ub_email body) [] \<and> user_id x \<noteq> new_id) (users db1) = None"
    using f by (auto simp: us find_None_iff)
  have fnd: "findById user_id new_id (users db1) = Inr (Some ?nu)"
  proof -
    have "\<forall>x\<in>set (users db). \<not> user_id x = new_id" using assms(4) by auto
    then have "find (\<lambda>d. user_id d = new_id) (users db @ [?nu]) = Some ?nu"
      by (simp add: find_append_new)
    then show ?thesis by (simp add: findById_def assms(3) us)
  qed
  have rem: "toRemove_of ?nu ps = []" and add: "toAdd_of ?nu ps = []"
    by (simp_all add: toRemove_of_def toAdd_of_def)
  have same: "updateOne (\<lambda>x. user_id x = new_id)
                (\<lambda>x. x\<lparr>user_name := str_or (ub_name body) [], email := str_or (ub_email body) [],
                        pendingTasks := ps\<rparr>) (users db1) = users db1"
  proof (rule updateOne_id)
    fix d assume "d \<in> set (users db1)" and "user_id d = new_id"
    with assms(4) have d: "d = ?nu" by (auto simp: us)
    show "d\<lparr>user_name := str_or (ub_name body) [], email := str_or (ub_email body) [],
            pendingTasks := ps\<rparr> = d"
      by (subst (1 2) d) simp
  qed
  have "users_put_apply new_id new_id ?nu body db1 =
          (respond 200 ''User updated'' (UserDoc ?nu), db1)"
    by (simp add: users_put_apply_def np rem add same)
  then show ?thesis
    using t other fnd assms(3) rem add by (simp add: users_put_def np)
qed

theorem create_then_same_update_witness:
  "status (fst (users_post cy_id (user_req ''Cy'' ''c@x.com'' (Some (LArr [t1_id, t3_id]))) db0)) = 201
   \<and> castObjectId cy_id = Some cy_id \<and> cy_id \<notin> user_id ` set (users db0)
   \<and> users_put cy_id (user_req ''Cy'' ''c@x.com'' (Some (LArr [t1_id, t3_id])))
        (snd (users_post cy_id (user_req ''Cy'' ''c@x.com'' (Some (LArr [t1_id, t3_id]))) db0)) =
       (respond 200 ''User updated''
          (UserDoc \<lparr>user_id = cy_id, user_name = ''Cy'', email = ''c@x.com'', pendingTasks = [t1_id, t3_id]\<rparr>),
        snd (users_post cy_id (user_req ''Cy'' ''c@x.com'' (Some (LArr [t1_id, t3_id]))) db0))"
proof -
  let ?req = "user_req ''Cy'' ''c@x.com'' (Some (LArr [t1_id, t3_id]))"
  obtain r1 db1 where R: "users_post cy_id ?req db0 = (r1, db1)" by (metis surj_pair)
  have s: "status r1 = 201" using R by (auto simp: users_post_cy)
  have p: "ub_pendingTasks ?req = Some (LArr [t1_id, t3_id])" by (simp add: user_req_fields)
  show ?thesis
    using create_then_same_update [OF R s cast_cy_id cy_fresh p] R s cast_cy_id cy_fresh
    by (simp add: user_req_fields str_or_def)
qed

section \<open>skip and limit\<close>

text \<open>
  C8, as the specification states it (a value that is no valid non-negative integer is
  treated exactly as an absent parameter), fails: on \<^verbatim>\<open>GET /api/tasks\<close> an absent
  \<^verbatim>\<open>limit\<close> means 100, and \<^verbatim>\<open>limit=abc\<close> means no limit at all; and \<^verbatim>\<open>skip=-5\<close> is
  passed to the store as \<open>- 5\<close>.
\<close>

theorem invalid_limit_not_absent:
  "\<forall>lib.
     tasks_get_list lib no_query =
       Find \<lparr>f_filter = JObj [], f_select = None, f_sort = None, f_skip = None, f_limit = Some 100\<rparr>
   \<and> tasks_get_list lib (no_query\<lparr>q_limit := Some ''abc''\<rparr>) =
       Find \<lparr>f_filter = JObj [], f_select = None, f_sort = None, f_skip = None, f_limit = None\<rparr>
   \<and> tasks_get_list lib (no_query\<lparr>q_limit := Some ''abc''\<rparr>) \<noteq> tasks_get_list lib no_query
   \<and> tasks_get_list lib (no_query\<lparr>q_skip := Some ''-5''\<rparr>) =
       Find \<lparr>f_filter = JObj [], f_select = None, f_sort = None, f_skip = Some (- 5), f_limit = Some 100\<rparr>"
  by (simp add: tasks_get_list_def no_query_def js_or_def truthy_opt_def build_query_def
        filter_of_def clause_of_def number_clause_def isNaN_def str_truthy_def str_or_def
        parseInt_abc parseInt_minus5)

text \<open>
  C8, amended. A non-empty \<^verbatim>\<open>skip\<close> or \<^verbatim>\<open>limit\<close> is read by \<^verbatim>\<open>parseInt\<close>. The request is
  handled as the request without the parameter, except that the query's clause is the
  integer read (of either sign), or no clause when \<^verbatim>\<open>parseInt\<close> reads none; the handler
  adds no error response of its own. Without the parameter there is no \<^verbatim>\<open>skip\<close> clause,
  no \<^verbatim>\<open>limit\<close> clause for users, and the \<^verbatim>\<open>limit\<close> clause 100 for tasks.
\<close>

theorem skip_limit_parsed:
  assumes "s \<noteq> []"
  shows "tasks_get_list lib (q\<lparr>q_skip := Some s\<rparr>) =
           (case tasks_get_list lib (q\<lparr>q_skip := None\<rparr>) of
              Find fq \<Rightarrow> Find (fq\<lparr>f_skip := (case parseInt s of NaN \<Rightarrow> None | Num n \<Rightarrow> Some n)\<rparr>)
            | other \<Rightarrow> other)
       \<and> users_get_list lib (q\<lparr>q_skip := Some s\<rparr>) =
           (case users_get_list lib (q\<lparr>q_skip := None\<rparr>) of
              Find fq \<Rightarrow> Find (fq\<lparr>f_skip := (case parseInt s of NaN \<Rightarrow> None | Num n \<Rightarrow> Some n)\<rparr>)
            | other \<Rightarrow> other)
       \<and> tasks_get_list lib (q\<lparr>q_limit := Some s\<rparr>) =
           (case tasks_get_list lib (q\<lparr>q_limit := None\<rparr>) of
              Find fq \<Rightarrow> Find (fq\<lparr>f_limit := (case parseInt s of NaN \<Rightarrow> None | Num n \<Rightarrow> Some n)\<rparr>)
            | other \<Rightarrow> other)
       \<and> users_get_list lib (q\<lparr>q_limit := Some s\<rparr>) =
           (case users_get_list lib (q\<lparr>q_limit := None\<rparr>) of
              Find fq \<Rightarrow> Find (fq\<lparr>f_limit := (case parseInt s of NaN \<Rightarrow> None | Num n \<Rightarrow> Some n)\<rparr>)
            | other \<Rightarrow> other)
       \<and> (\<forall>fq. tasks_get_list lib (q\<lparr>q_limit := None\<rparr>) = Find fq \<longrightarrow> f_limit fq = Some 100)
       \<and> (\<forall>fq. users_get_list lib (q\<lparr>q_limit := None\<rparr>) = Find fq \<longrightarrow> f_limit fq = None)
       \<and> (\<forall>fq. tasks_get_list lib (q\<lparr>q_skip := None\<rparr>) = Find fq \<longrightarrow> f_skip fq = None)
       \<and> (\<forall>fq. users_get_list lib (q\<lparr>q_skip := None\<rparr>) = Find fq \<longrightarrow> f_skip fq = None)"
  using assms
  by (auto simp: tasks_get_list_def users_get_list_def Let_def build_query_def str_truthy_def str_or_def
      number_clause_parse number_clause_def isNaN_def split: number.splits)

theorem skip_limit_parsed_witness:
  "\<forall>lib. ''abc'' \<noteq> []
   \<and> tasks_get_list lib (no_query\<lparr>q_skip := Some ''abc''\<rparr>) = tasks_get_list lib no_query
   \<and> users_get_list lib (no_query\<lparr>q_skip := Some ''abc''\<rparr>) = users_get_list lib no_query
   \<and> users_get_list lib (no_query\<lparr>q_limit := Some ''abc''\<rparr>) = users_get_list lib no_query
   \<and> tasks_get_list lib (no_query\<lparr>q_limit := Some ''abc''\<rparr>) =
       Find \<lparr>f_filter = JObj [], f_select = None, f_sort = None, f_skip = None, f_limit = None\<rparr>"
proof
  fix lib
  have ne: "''abc'' \<noteq> []" by simp
  have e: "no_query\<lparr>q_skip := None\<rparr> = no_query" "no_query\<lparr>q_limit := None\<rparr> = no_query"
    by (simp_all add: no_query_def)
  have u: "users_get_list lib no_query =
       Find \<lparr>f_filter = JObj [], f_select = None, f_sort = None, f_skip = None, f_limit = None\<rparr>"
    by (simp add: users_get_list_def no_query_def js_or_def truthy_opt_def build_query_def
        filter_of_def clause_of_def number_clause_def isNaN_def str_truthy_def)
  show "''abc'' \<noteq> []
   \<and> tasks_get_list lib (no_query\<lparr>q_skip := Some ''abc''\<rparr>) = tasks_get_list lib no_query
   \<and> users_get_list lib (no_query\<lparr>q_skip := Some ''abc''\<rparr>) = users_get_list lib no_query
   \<and> users_get_list lib (no_query\<lparr>q_limit := Some ''abc''\<rparr>) = users_get_list lib no_query
   \<and> tasks_get_list lib (no_query\<lparr>q_limit := Some ''abc''\<rparr>) =
       Find \<lparr>f_filter = JObj [], f_select = None, f_sort = None, f_skip = None, f_limit = None\<rparr>"
    using skip_limit_parsed [OF ne, of lib no_query]
    by (simp add: e u tasks_list_no_query parseInt_abc)
qed

section \<open>Updating a user without a list of tasks\<close>



section \<open>Creating a user with tasks that are not stored\<close>

text \<open>
  C10. \<^verbatim>\<open>POST /api/users\<close> with name, email not yet taken, and a list of well-formed task
  ids none of which names a completed task: the user is created (status 201) with the
  list as given, whether or not the ids name stored tasks. Creation has no check for
  missing tasks.
\<close>

theorem users_post_unknown_tasks:
  assumes "str_truthy (ub_name body)" and "str_truthy (ub_email body)"
    and "find (\<lambda>u. email u = str_or (ub_email body) []) (users db) = None"
    and "ub_pendingTasks body = Some (LArr ps)"
    and "list_all isValid ps"
    and "list_all (\<lambda>t. Some (task_id t) \<in> castObjectId ` set ps \<longrightarrow> \<not> completed t) (tasks db)"
  shows "fst (users_post new_id body db) =
           respond 201 ''User created''
             (UserDoc \<lparr>user_id = new_id, user_name = str_or (ub_name body) [],
                       email = str_or (ub_email body) [], pendingTasks = ps\<rparr>)
       \<and> users (snd (users_post new_id body db)) =
           users db @ [\<lparr>user_id = new_id, user_name = str_or (ub_name body) [],
                         email = str_or (ub_email body) [], pendingTasks = ps\<rparr>]"
proof -
  obtain ks where ks: "castIds ps = Some ks"
    using castIds_valid [OF assms(5)] by blast
  have "filter completed (filter (\<lambda>t. task_id t \<in> set ks) (tasks db)) = []"
    using assms(6) castIds_Some [OF ks] by (auto simp: list_all_iff filter_empty_conv)
  then have chk: "users_post_check (LArr ps) db = None"
    by (simp add: users_post_check_def findTasksIn_def ks)
  show ?thesis
    using assms(1-4) chk
    by (simp add: users_post_def pending_or_empty_def Let_def assignTasksIn_def ks)
qed

theorem users_post_unknown_tasks_witness:
  "find (\<lambda>t. task_id t = t3_id) (tasks db0) = None \<and> isValid t3_id
   \<and> fst (users_post cy_id (user_req ''Cy'' ''c@x.com'' (Some (LArr [t3_id]))) db0) =
       respond 201 ''User created''
         (UserDoc \<lparr>user_id = cy_id, user_name = ''Cy'', email = ''c@x.com'', pendingTasks = [t3_id]\<rparr>)
   \<and> users (snd (users_post cy_id (user_req ''Cy'' ''c@x.com'' (Some (LArr [t3_id]))) db0)) =
       [al, bo, \<lparr>user_id = cy_id, user_name = ''Cy'', email = ''c@x.com'', pendingTasks = [t3_id]\<rparr>]"
proof -
  let ?req = "user_req ''Cy'' ''c@x.com'' (Some (LArr [t3_id]))"
  have h1: "str_truthy (ub_name ?req)" and h2: "str_truthy (ub_email ?req)"
    by (simp_all add: user_req_fields str_truthy_def)
  have h3: "find (\<lambda>u. email u = str_or (ub_email ?req) []) (users db0) = None"
    by (simp add: user_req_fields str_or_def store_defs)
  have h4: "ub_pendingTasks ?req = Some (LArr [t3_id])" by (simp add: user_req_fields)
  have h5: "list_all isValid [t3_id]" by (simp add: valid_ids)
  have h6: "list_all (\<lambda>t. Some (task_id t) \<in> castObjectId ` set [t3_id] \<longrightarrow> \<not> completed t) (tasks db0)"
    by (simp add: store_defs cast_t3_id ids_distinct)
  have n: "find (\<lambda>t. task_id t = t3_id) (tasks db0) = None"
    by (simp add: store_defs ids_distinct)
  show ?thesis
    using users_post_unknown_tasks [OF h1 h2 h3 h4 h5 h6, of cy_id] n
    by (simp add: user_req_fields str_or_def valid_ids db0_def)
qed

end
